theory Spec2Isabelle
  imports Complex_Main
begin

section \<open>Numbers and vectors\<close>

text \<open>
  The scenes compute with JavaScript numbers. The generator's state is an integer and is
  modelled as \<^typ>\<open>int\<close>; every other number is modelled as an ideal \<^typ>\<open>real\<close>
  (no rounding to binary64 or to the 32-bit floats of a typed array).
\<close>

definition js_rem :: "int \<Rightarrow> int \<Rightarrow> int" where
  \<comment> \<open>The operator \<^verbatim>\<open>%\<close> on integers: the result takes the sign of the dividend.\<close>
  "js_rem a b = (if a < 0 then - ((- a) mod \<bar>b\<bar>) else a mod \<bar>b\<bar>)"

definition js_round :: "real \<Rightarrow> int" where
  \<comment> \<open>\<^verbatim>\<open>Math.round\<close>: halves go up.\<close>
  "js_round v = \<lfloor>v + 1 / 2\<rfloor>"

datatype Vector3 = Vector3 (vx: real) (vy: real) (vz: real)

section \<open>The seeded generator, as each of the three files defines it\<close>

text \<open>
  \<^verbatim>\<open>
  function seededRandom(seed: number) {
    let s = seed;
    return () => {
      s = (s * 16807) % 2147483647;
      return (s - 1) / 2147483646;
    };
  }
  \<close>
  The closure is modelled by its captured variable \<open>s\<close>; a call takes the variable and
  returns the value together with the updated variable. Seeds are integers, as every seed
  in the three files is; the integer arithmetic of the model is that of the program as
  long as \<open>s * 16807\<close> stays below \<open>2^53\<close> in absolute value.
\<close>

type_synonym rng = int

subsection \<open>The chip scene (components/AIHeroScene.tsx)\<close>

definition seededRandom :: "int \<Rightarrow> rng" where
  "seededRandom seed = seed"

definition rand :: "rng \<Rightarrow> real \<times> rng" where
  "rand s = (let s' = js_rem (s * 16807) 2147483647
             in (real_of_int (s' - 1) / 2147483646, s'))"

subsection \<open>The first sphere scene\<close>

definition seededRandom_sphere1 :: "int \<Rightarrow> rng" where
  "seededRandom_sphere1 seed = seed"

definition rand_sphere1 :: "rng \<Rightarrow> real \<times> rng" where
  "rand_sphere1 s = (let s' = js_rem (s * 16807) 2147483647
                     in (real_of_int (s' - 1) / 2147483646, s'))"

subsection \<open>The second sphere scene\<close>

definition seededRandom_sphere2 :: "int \<Rightarrow> rng" where
  "seededRandom_sphere2 seed = seed"

definition rand_sphere2 :: "rng \<Rightarrow> real \<times> rng" where
  "rand_sphere2 s = (let s' = js_rem (s * 16807) 2147483647
                     in (real_of_int (s' - 1) / 2147483646, s'))"

subsection \<open>Sequences of calls\<close>

text \<open>The closure's variable after \<open>n\<close> calls, and the value the \<open>n\<close>-th call returns
  (calls are numbered from 1).\<close>

primrec state_after :: "(rng \<Rightarrow> real \<times> rng) \<Rightarrow> rng \<Rightarrow> nat \<Rightarrow> rng" where
  "state_after call s 0 = s"
| "state_after call s (Suc n) = snd (call (state_after call s n))"

definition nth_value :: "(rng \<Rightarrow> real \<times> rng) \<Rightarrow> rng \<Rightarrow> nat \<Rightarrow> real" where
  "nth_value call s n = fst (call (state_after call s (n - 1)))"

text \<open>The generator as the specification words it: \<open>s := (s * 16807) mod 2147483647\<close>,
  returning \<open>(s - 1) / 2147483646\<close>.\<close>

definition spec_lcg_state :: "int \<Rightarrow> int" where
  "spec_lcg_state s = (s * 16807) mod 2147483647"

primrec spec_lcg_iter :: "int \<Rightarrow> nat \<Rightarrow> int" where
  "spec_lcg_iter s 0 = s"
| "spec_lcg_iter s (Suc n) = spec_lcg_state (spec_lcg_iter s n)"

definition spec_lcg_value :: "int \<Rightarrow> nat \<Rightarrow> real" where
  "spec_lcg_value seed n = real_of_int (spec_lcg_iter seed n - 1) / 2147483646"

definition valid_state :: "rng \<Rightarrow> bool" where
  "valid_state s = (1 \<le> s \<and> s \<le> 2147483646)"

section \<open>Loops, errors and the three.js objects the scenes use\<close>

text \<open>A counting loop \<^verbatim>\<open>for (let i = 0; i < n; i++) body\<close> runs its body on \<open>0, \<dots>, n - 1\<close>
  in order, threading the variables the body updates.\<close>

definition for_loop :: "nat \<Rightarrow> (nat \<Rightarrow> 's \<Rightarrow> 's) \<Rightarrow> 's \<Rightarrow> 's" where
  "for_loop n body init = fold body [0..<n] init"

text \<open>
  Reading or writing a typed array outside its range does not throw in JavaScript (a read
  gives \<^verbatim>\<open>undefined\<close>, a write is dropped). The model makes such an access an error
  value, so that "every index is in range" is the statement that no error arises.
\<close>

datatype error = IndexOutOfRange | TypeError

definition ebind :: "error + 'a \<Rightarrow> ('a \<Rightarrow> error + 'b) \<Rightarrow> error + 'b" where
  "ebind m f = (case m of Inl e \<Rightarrow> Inl e | Inr v \<Rightarrow> f v)"

primrec emap :: "('a \<Rightarrow> error + 'b) \<Rightarrow> 'a list \<Rightarrow> error + 'b list" where
  "emap f [] = Inr []"
| "emap f (a # as) = ebind (f a) (\<lambda>b. ebind (emap f as) (\<lambda>bs. Inr (b # bs)))"

text \<open>Vector3 methods (three.js): \<^verbatim>\<open>length\<close>, \<^verbatim>\<open>multiplyScalar\<close>, \<^verbatim>\<open>divideScalar\<close>,
  \<^verbatim>\<open>normalize\<close> (which divides by \<^verbatim>\<open>length() || 1\<close>), \<^verbatim>\<open>addVectors\<close>/\<^verbatim>\<open>add\<close> and
  \<^verbatim>\<open>fromBufferAttribute\<close> on a position attribute given as the list of its vertices.\<close>

definition vlength :: "Vector3 \<Rightarrow> real" where
  "vlength v = sqrt (vx v * vx v + vy v * vy v + vz v * vz v)"

definition multiplyScalar :: "Vector3 \<Rightarrow> real \<Rightarrow> Vector3" where
  "multiplyScalar v k = Vector3 (vx v * k) (vy v * k) (vz v * k)"

definition divideScalar :: "Vector3 \<Rightarrow> real \<Rightarrow> Vector3" where
  "divideScalar v k = multiplyScalar v (1 / k)"

definition normalize :: "Vector3 \<Rightarrow> Vector3" where
  "normalize v = divideScalar v (if vlength v = 0 then 1 else vlength v)"

definition addVectors :: "Vector3 \<Rightarrow> Vector3 \<Rightarrow> Vector3" where
  "addVectors a b = Vector3 (vx a + vx b) (vy a + vy b) (vz a + vz b)"

definition fromBufferAttribute :: "Vector3 list \<Rightarrow> int \<Rightarrow> error + Vector3" where
  "fromBufferAttribute attr i =
     (if 0 \<le> i \<and> i < int (length attr) then Inr (attr ! nat i) else Inl IndexOutOfRange)"

text \<open>Objects are modelled by the fields the scenes read or write: position and Euler
  rotation of an object, position and intensity of a light, opacity of a material; a
  line by its two points and its material's colour (HSL) and opacity; a local matrix by
  the position, rotation about z and scale it was composed from.\<close>

record Object3D =
  position :: Vector3
  rotation :: Vector3

record Light =
  light_position :: Vector3
  intensity :: real

record Material =
  opacity :: real

record Line =
  line_points :: "Vector3 list"
  line_hsl :: "real \<times> real \<times> real"
  line_opacity :: real

record Matrix4 =
  m_position :: Vector3
  m_rotation_z :: real
  m_scale :: Vector3

record InstancedMesh =
  instanceMatrix :: "Matrix4 list"
  mesh_count :: nat

definition identity :: Matrix4 where
  "identity = \<lparr>m_position = Vector3 0 0 0, m_rotation_z = 0, m_scale = Vector3 1 1 1\<rparr>"

definition new_InstancedMesh :: "nat \<Rightarrow> InstancedMesh" where
  \<comment> \<open>\<^verbatim>\<open><instancedMesh args={[undefined, undefined, count]}>\<close>\<close>
  "new_InstancedMesh n = \<lparr>instanceMatrix = replicate n identity, mesh_count = n\<rparr>"

definition setMatrixAt :: "InstancedMesh \<Rightarrow> nat \<Rightarrow> Matrix4 \<Rightarrow> error + InstancedMesh" where
  "setMatrixAt mesh i m =
     (if i < length (instanceMatrix mesh)
      then Inr (mesh\<lparr>instanceMatrix := (instanceMatrix mesh)[i := m]\<rparr>)
      else Inl IndexOutOfRange)"

section \<open>The chip scene (components/AIHeroScene.tsx)\<close>

subsection \<open>MicroGreebles\<close>

text \<open>One iteration of the placement loop; the variables are the generator, \<open>idx\<close> and
  the instanced mesh.\<close>

definition greeble_body ::
  "nat \<Rightarrow> error + (rng \<times> nat \<times> InstancedMesh) \<Rightarrow> error + (rng \<times> nat \<times> InstancedMesh)" where
  "greeble_body i st = ebind st (\<lambda>(s, idx, mesh).
     let w = 0.04; h = 0.08; d = 0.02;
         (x, y, s3) =
           (if i < 100 then
              (let (r1, s1) = rand s; x = (r1 - 0.5) * 2.8;
                   (r2, s2) = rand s1; (r3, s3) = rand s2;
                   y = (if r2 > 0.5 then 1 else -1) * (1.0 + r3 * 0.4)
               in (x, y, s3))
            else
              (let (r1, s1) = rand s; (r2, s2) = rand s1;
                   x = (if r1 > 0.5 then 1 else -1) * (1.0 + r2 * 0.4);
                   (r3, s3) = rand s2; y = (r3 - 0.5) * 2.8
               in (x, y, s3)));
         (r4, s4) = rand s3;
         matrix = \<lparr>m_position = Vector3 x y (0.08 + d / 2),
                   m_rotation_z = (if r4 > 0.5 then 0 else pi / 2),
                   m_scale = Vector3 w h d\<rparr>
     in ebind (setMatrixAt mesh idx matrix) (\<lambda>mesh'. Inr (s4, idx + 1, mesh')))"

definition MicroGreebles_layoutEffect :: "InstancedMesh option \<Rightarrow> error + InstancedMesh option" where
  \<comment> \<open>\<open>meshRef.current\<close> is the argument; a null ref makes the effect return at once.\<close>
  "MicroGreebles_layoutEffect meshRef =
     (case meshRef of
        None \<Rightarrow> Inr None
      | Some mesh \<Rightarrow>
          ebind (for_loop 200 greeble_body (Inr (seededRandom 1337, 0, mesh)))
            (\<lambda>(s, idx, mesh'). Inr (Some (mesh'\<lparr>mesh_count := idx\<rparr>))))"

subsection \<open>createCircuitGeo\<close>

definition circuit_body :: "real \<Rightarrow> nat \<Rightarrow> Vector3 list \<times> rng \<Rightarrow> Vector3 list \<times> rng" where
  "circuit_body variance i st = (case st of (points, s) \<Rightarrow>
     let (r1, s1) = rand s; startEdge = \<lfloor>r1 * 4\<rfloor>;
         (r2, s2) = rand s1;
         offset = real_of_int (js_round ((r2 - 0.5) * 2.8 * variance * 10)) / 10;
         (startX, startY) =
           (if startEdge = 0 then (offset, 1.3)
            else if startEdge = 1 then (1.3, offset)
            else if startEdge = 2 then (offset, - 1.3)
            else (- 1.3, offset));
         (r3, s3) = rand s2; endX = real_of_int (js_round ((r3 - 0.5) * 0.8 * 10)) / 10;
         (r4, s4) = rand s3; endY = real_of_int (js_round ((r4 - 0.5) * 0.8 * 10)) / 10;
         p1 = Vector3 startX startY 0;
         p2 = Vector3 startX endY 0;
         p3 = Vector3 endX endY 0
     in (points @ [p1, p2, p2, p3], s4))"

definition createCircuitGeo :: "nat \<Rightarrow> real \<Rightarrow> int \<Rightarrow> Vector3 list" where
  "createCircuitGeo count variance seed =
     fst (for_loop count (circuit_body variance) ([], seededRandom seed))"

subsection \<open>NetworkLines and ParticleField\<close>

definition network_body :: "nat \<Rightarrow> Vector3 list \<times> rng \<Rightarrow> Vector3 list \<times> rng" where
  "network_body i st = (case st of (points, s) \<Rightarrow>
     let (r1, s1) = rand s; angle = r1 * pi * 2;
         radius = 2.0;
         x = cos angle * radius;
         y = sin angle * radius;
         (r2, s2) = rand s1; z = (r2 - 0.5) * 0.2;
         (r3, s3) = rand s2; len = 4.0 + r3 * 6.0;
         p1 = Vector3 x y z;
         p2 = addVectors p1 (multiplyScalar (normalize p1) len)
     in (points @ [p1, p2], s3))"

definition NetworkLines_linesGeo :: "Vector3 list" where
  "NetworkLines_linesGeo = fst (for_loop 40 network_body ([], seededRandom 555))"

definition particle_body :: "nat \<Rightarrow> real list \<times> rng \<Rightarrow> real list \<times> rng" where
  "particle_body i st = (case st of (arr, s) \<Rightarrow>
     let (r1, s1) = rand s; arr1 = arr[i * 3 := (r1 - 0.5) * 30];
         (r2, s2) = rand s1; arr2 = arr1[i * 3 + 1 := (r2 - 0.5) * 20];
         (r3, s3) = rand s2; arr3 = arr2[i * 3 + 2 := (r3 - 0.5) * 15]
     in (arr3, s3))"

definition ParticleField_positions :: "real list" where
  "ParticleField_positions =
     fst (for_loop 400 particle_body (replicate (400 * 3) 0, seededRandom 999))"

subsection \<open>Frame callbacks\<close>

text \<open>Each callback reads the elapsed time \<open>t\<close> of the clock and writes through its refs;
  a ref is \<open>None\<close> while nothing is attached to it.\<close>

record NeuralChip =
  groupRef :: "Object3D option"
  coreLightRef :: "Light option"
  denseCircuitGeo :: "Vector3 list"
  activeCircuitGeo :: "Vector3 list"

definition NeuralChip_useFrame :: "real \<Rightarrow> NeuralChip \<Rightarrow> NeuralChip" where
  "NeuralChip_useFrame t c =
     (let c1 = (case groupRef c of
                  None \<Rightarrow> c
                | Some g \<Rightarrow>
                    (let g1 = g\<lparr>rotation := Vector3 (sin (t * 0.05) * 0.08) (vy (rotation g)) (vz (rotation g))\<rparr>;
                         g2 = g1\<lparr>rotation := Vector3 (vx (rotation g1)) (sin (t * 0.03) * 0.12) (vz (rotation g1))\<rparr>
                     in c\<lparr>groupRef := Some g2\<rparr>))
      in (case coreLightRef c1 of
            None \<Rightarrow> c1
          | Some l \<Rightarrow> c1\<lparr>coreLightRef := Some (l\<lparr>intensity := 8.0 + sin (t * 1.5) * 2.0\<rparr>)\<rparr>))"

record ParticleField =
  positions :: "real list"
  pointsRef :: "Object3D option"

definition ParticleField_useFrame :: "real \<Rightarrow> ParticleField \<Rightarrow> ParticleField" where
  "ParticleField_useFrame t p =
     (case pointsRef p of
        None \<Rightarrow> p
      | Some o3 \<Rightarrow>
          p\<lparr>pointsRef := Some (o3\<lparr>rotation := Vector3 (vx (rotation o3)) (t * 0.02) (vz (rotation o3))\<rparr>)\<rparr>)"

record SceneLights =
  movLight :: "Light option"

definition SceneLights_useFrame :: "real \<Rightarrow> SceneLights \<Rightarrow> SceneLights" where
  "SceneLights_useFrame t sl =
     (case movLight sl of
        None \<Rightarrow> sl
      | Some l \<Rightarrow>
          (let l1 = l\<lparr>light_position := Vector3 (sin (t * 0.2) * 12) (vy (light_position l)) (vz (light_position l))\<rparr>;
               l2 = l1\<lparr>light_position := Vector3 (vx (light_position l1)) (vy (light_position l1)) (cos (t * 0.2) * 12)\<rparr>
           in sl\<lparr>movLight := Some l2\<rparr>))"

text \<open>The scene: its components, mounted with the values of the JSX, and one display
  frame, which runs every callback at the same elapsed time.\<close>

record chip_scene =
  chip :: NeuralChip
  greebles :: "InstancedMesh option"
  networkLines :: "Vector3 list"
  particles :: ParticleField
  lights :: SceneLights

definition NeuralChip_mounted :: NeuralChip where
  "NeuralChip_mounted =
     \<lparr>groupRef = Some \<lparr>position = Vector3 0 0 0, rotation = Vector3 0.4 (- 0.2) 0\<rparr>,
      coreLightRef = Some \<lparr>light_position = Vector3 0 0 0.5, intensity = 1\<rparr>,
      denseCircuitGeo = createCircuitGeo 80 0.3 42,
      activeCircuitGeo = createCircuitGeo 20 0.6 99\<rparr>"

definition chip_mount :: "error + chip_scene" where
  "chip_mount =
     ebind (MicroGreebles_layoutEffect (Some (new_InstancedMesh 200))) (\<lambda>mesh.
       Inr \<lparr>chip = NeuralChip_mounted,
            greebles = mesh,
            networkLines = NetworkLines_linesGeo,
            particles = \<lparr>positions = ParticleField_positions,
                          pointsRef = Some \<lparr>position = Vector3 0 0 0, rotation = Vector3 0 0 0\<rparr>\<rparr>,
            lights = \<lparr>movLight = Some \<lparr>light_position = Vector3 (- 10) 0 5, intensity = 300\<rparr>\<rparr>\<rparr>)"

definition chip_frame :: "real \<Rightarrow> chip_scene \<Rightarrow> chip_scene" where
  "chip_frame t sc =
     sc\<lparr>chip := NeuralChip_useFrame t (chip sc),
        particles := ParticleField_useFrame t (particles sc),
        lights := SceneLights_useFrame t (lights sc)\<rparr>"

definition chip_run :: "real list \<Rightarrow> error + chip_scene" where
  \<comment> \<open>An execution: mount, then one frame at each of the given elapsed times.\<close>
  "chip_run ts = ebind chip_mount (\<lambda>sc. Inr (fold chip_frame ts sc))"

definition chip_placements ::
  "chip_scene \<Rightarrow> InstancedMesh option \<times> Vector3 list \<times> Vector3 list \<times> Vector3 list \<times> real list" where
  "chip_placements sc =
     (greebles sc, denseCircuitGeo (chip sc), activeCircuitGeo (chip sc), networkLines sc,
      positions (particles sc))"

section \<open>The first sphere scene\<close>

subsection \<open>AICoreSphere: geometry\<close>

text \<open>
  \<open>icoGeo\<close> is \<^verbatim>\<open>new THREE.IcosahedronGeometry(2.0, 1)\<close> and \<open>edgesGeo\<close> its
  \<^verbatim>\<open>EdgesGeometry\<close>; both come from three.js. The model takes what the scene reads of
  them as parameters: the position attribute \<open>pos\<close> of \<open>icoGeo\<close> (the list of its
  vertices, three per face) and the vertex count of \<open>edgesGeo\<close>.
\<close>

definition edgeColors_body1 :: "nat \<Rightarrow> real list \<times> rng \<Rightarrow> real list \<times> rng" where
  "edgeColors_body1 i st = (case st of (colors, s) \<Rightarrow>
     let (b, s') = rand_sphere1 s in
     if b > 0.75 then
       (colors[i * 3 := 0.15, i * 3 + 1 := 1.0, i * 3 + 2 := 0.85], s')
     else if b > 0.4 then
       (colors[i * 3 := 0.05, i * 3 + 1 := 0.6 + b * 0.3, i * 3 + 2 := 0.5 + b * 0.2], s')
     else
       (colors[i * 3 := 0.02, i * 3 + 1 := 0.25 + b * 0.2, i * 3 + 2 := 0.22 + b * 0.15], s'))"

definition edgeColors1 :: "nat \<Rightarrow> real list" where
  "edgeColors1 count =
     fst (for_loop count edgeColors_body1 (replicate (count * 3) 0, seededRandom_sphere1 42))"

text \<open>The set of face indices keeps insertion order (\<^verbatim>\<open>Array.from\<close> reads it back in that
  order): a list without repetition. The loop has no bound on its number of draws, so
  the model is a partial function: \<open>None\<close> stands for a loop that never ends.\<close>

definition set_add :: "int list \<Rightarrow> int \<Rightarrow> int list" where
  "set_add xs v = (if v \<in> set xs then xs else xs @ [v])"

partial_function (option) faceIndices_loop1 :: "real \<Rightarrow> rng \<Rightarrow> int list \<Rightarrow> int list option" where
  "faceIndices_loop1 totalFaces s faceIndices =
     (if length faceIndices < 3
      then faceIndices_loop1 totalFaces (snd (rand_sphere1 s))
             (set_add faceIndices \<lfloor>fst (rand_sphere1 s) * totalFaces\<rfloor>)
      else Some faceIndices)"

record Panel =
  geo :: "Vector3 list"
  center :: Vector3

definition panel_of_face :: "Vector3 list \<Rightarrow> int \<Rightarrow> error + Panel" where
  \<comment> \<open>The callback of \<^verbatim>\<open>Array.from(faceIndices).map\<close>; both sphere files have the same text.\<close>
  "panel_of_face pos fi =
     (let base = fi * 3 in
      ebind (fromBufferAttribute pos base) (\<lambda>vA.
      ebind (fromBufferAttribute pos (base + 1)) (\<lambda>vB.
      ebind (fromBufferAttribute pos (base + 2)) (\<lambda>vC.
        Inr \<lparr>geo = [vA, vB, vC],
             center = divideScalar (addVectors (addVectors vA vB) vC) 3\<rparr>))))"

definition faceIndices1 :: "nat \<Rightarrow> int list option" where
  \<comment> \<open>The faces chosen, for a position attribute of the given vertex count.\<close>
  "faceIndices1 pos_count =
     (let totalFaces = real pos_count / 3
      in faceIndices_loop1 totalFaces (seededRandom_sphere1 77) [])"

definition panelGeos1 :: "Vector3 list \<Rightarrow> (error + Panel list) option" where
  "panelGeos1 pos = map_option (emap (panel_of_face pos)) (faceIndices1 (length pos))"

definition beam_body1 ::
  "Vector3 list \<Rightarrow> nat \<Rightarrow> error + (Line list \<times> rng) \<Rightarrow> error + (Line list \<times> rng)" where
  "beam_body1 pos i st = ebind st (\<lambda>(objects, s).
     let (r1, s1) = rand_sphere1 s; idx = \<lfloor>r1 * real (length pos)\<rfloor>
     in ebind (fromBufferAttribute pos idx) (\<lambda>v.
       let dir = normalize v;
           start = multiplyScalar v 0.95;
           (r2, s2) = rand_sphere1 s1;
           end = addVectors v (multiplyScalar dir (3.0 + r2 * 4.0));
           (r3, s3) = rand_sphere1 s2;
           (r4, s4) = rand_sphere1 s3;
           line = \<lparr>line_points = [start, end],
                   line_hsl = (0.47 + r3 * 0.06, 0.9, 0.55),
                   line_opacity = 0.35 + r4 * 0.3\<rparr>
       in Inr (objects @ [line], s4)))"

definition beamObjects1 :: "Vector3 list \<Rightarrow> error + Line list" where
  "beamObjects1 pos =
     ebind (for_loop 10 (beam_body1 pos) (Inr ([], seededRandom_sphere1 200)))
       (\<lambda>(objects, s). Inr objects)"

definition particle_body1 :: "nat \<Rightarrow> real list \<times> rng \<Rightarrow> real list \<times> rng" where
  "particle_body1 i st = (case st of (arr, s) \<Rightarrow>
     let (r1, s1) = rand_sphere1 s; arr1 = arr[i * 3 := (r1 - 0.5) * 25];
         (r2, s2) = rand_sphere1 s1; arr2 = arr1[i * 3 + 1 := (r2 - 0.5) * 16];
         (r3, s3) = rand_sphere1 s2; arr3 = arr2[i * 3 + 2 := (r3 - 0.5) * 20]
     in (arr3, s3))"

definition ParticleField_positions1 :: "real list" where
  "ParticleField_positions1 =
     fst (for_loop 500 particle_body1 (replicate (500 * 3) 0, seededRandom_sphere1 999))"

subsection \<open>Frame callbacks\<close>

record AICoreSphere1 =
  groupRef1 :: "Object3D option"
  panelLightRef1 :: "Light option"
  innerGlowRef1 :: "Material option"
  edgeColorAttr1 :: "real list"
  panels1 :: "Panel list"
  beams1 :: "Line list"

primrec beams_forEach1 :: "real \<Rightarrow> nat \<Rightarrow> Line list \<Rightarrow> Line list" where
  "beams_forEach1 t i [] = []"
| "beams_forEach1 t i (line # rest) =
     line\<lparr>line_opacity := 0.2 + sin (t * 1.8 + real i * 1.1) * 0.2\<rparr>
       # beams_forEach1 t (i + 1) rest"

definition AICoreSphere_useFrame1 :: "real \<Rightarrow> AICoreSphere1 \<Rightarrow> AICoreSphere1" where
  "AICoreSphere_useFrame1 t c =
     (let c1 = (case groupRef1 c of
                  None \<Rightarrow> c
                | Some g \<Rightarrow>
                    (let g1 = g\<lparr>rotation := Vector3 (vx (rotation g)) (t * 0.06) (vz (rotation g))\<rparr>;
                         g2 = g1\<lparr>rotation := Vector3 (sin (t * 0.03) * 0.08) (vy (rotation g1)) (vz (rotation g1))\<rparr>;
                         g3 = g2\<lparr>position := Vector3 (vx (position g2)) (sin (t * 0.35) * 0.12) (vz (position g2))\<rparr>
                     in c\<lparr>groupRef1 := Some g3\<rparr>));
          c2 = (case panelLightRef1 c1 of
                  None \<Rightarrow> c1
                | Some l \<Rightarrow> c1\<lparr>panelLightRef1 := Some (l\<lparr>intensity := 4.0 + sin (t * 1.2) * 1.5\<rparr>)\<rparr>);
          c3 = (case innerGlowRef1 c2 of
                  None \<Rightarrow> c2
                | Some mat \<Rightarrow> c2\<lparr>innerGlowRef1 := Some (mat\<lparr>opacity := 0.06 + sin (t * 0.8) * 0.02\<rparr>)\<rparr>)
      in c3\<lparr>beams1 := beams_forEach1 t 0 (beams1 c3)\<rparr>)"

record SceneLights1 =
  keyRef1 :: "Light option"
  rimRef1 :: "Light option"

definition SceneLights_useFrame1 :: "real \<Rightarrow> SceneLights1 \<Rightarrow> SceneLights1" where
  "SceneLights_useFrame1 t sl =
     (let sl1 = (case rimRef1 sl of
                   None \<Rightarrow> sl
                 | Some l \<Rightarrow> sl\<lparr>rimRef1 := Some (l\<lparr>intensity := 1.8 + sin (t * 0.6) * 0.4\<rparr>)\<rparr>)
      in (case keyRef1 sl1 of
            None \<Rightarrow> sl1
          | Some l \<Rightarrow> sl1\<lparr>keyRef1 := Some (l\<lparr>intensity := 3.5 + sin (t * 0.4) * 0.3\<rparr>)\<rparr>))"

text \<open>The camera's orientation after \<^verbatim>\<open>lookAt\<close> is determined by where the camera stands
  and the point it looks at; the model records that pair.\<close>

record Camera =
  cam_position :: Vector3
  cam_lookAt :: "(Vector3 \<times> Vector3) option"

definition lookAt :: "Camera \<Rightarrow> Vector3 \<Rightarrow> Camera" where
  "lookAt cam target = cam\<lparr>cam_lookAt := Some (cam_position cam, target)\<rparr>"

definition CameraDrift_useFrame1 :: "real \<Rightarrow> Camera \<Rightarrow> Camera" where
  "CameraDrift_useFrame1 t cam =
     (let c1 = cam\<lparr>cam_position := Vector3 (0.3 + sin (t * 0.12) * 0.25) (vy (cam_position cam)) (vz (cam_position cam))\<rparr>;
          c2 = c1\<lparr>cam_position := Vector3 (vx (cam_position c1)) (0.05 + sin (t * 0.08) * 0.18) (vz (cam_position c1))\<rparr>;
          c3 = c2\<lparr>cam_position := Vector3 (vx (cam_position c2)) (vy (cam_position c2)) (6.0 + sin (t * 0.1) * 0.15)\<rparr>
      in lookAt c3 (Vector3 1.2 0 0))"

definition ParticleField_useFrame1 :: "real \<Rightarrow> ParticleField \<Rightarrow> ParticleField" where
  "ParticleField_useFrame1 t p =
     (case pointsRef p of
        None \<Rightarrow> p
      | Some o3 \<Rightarrow>
          (let o1 = o3\<lparr>rotation := Vector3 (vx (rotation o3)) (t * 0.003) (vz (rotation o3))\<rparr>;
               o2 = o1\<lparr>rotation := Vector3 (t * 0.001) (vy (rotation o1)) (vz (rotation o1))\<rparr>
           in p\<lparr>pointsRef := Some o2\<rparr>))"

record sphere1_scene =
  core1 :: AICoreSphere1
  lights1 :: SceneLights1
  camera1 :: Camera
  particles1 :: ParticleField

definition SceneLights_mounted1 :: SceneLights1 where
  "SceneLights_mounted1 =
     \<lparr>keyRef1 = Some \<lparr>light_position = Vector3 5 3 5, intensity = 3.5\<rparr>,
      rimRef1 = Some \<lparr>light_position = Vector3 (- 5) 2 (- 4), intensity = 1.8\<rparr>\<rparr>"

definition sphere1_mount :: "Vector3 list \<Rightarrow> nat \<Rightarrow> (error + sphere1_scene) option" where
  "sphere1_mount pos edge_count =
     map_option (\<lambda>panels.
       ebind panels (\<lambda>ps.
       ebind (beamObjects1 pos) (\<lambda>bs.
       ebind (case ps of [] \<Rightarrow> Inl TypeError | p0 # _ \<Rightarrow> Inr p0) (\<lambda>p0.
         Inr \<lparr>core1 = \<lparr>groupRef1 = Some \<lparr>position = Vector3 1.6 0 0, rotation = Vector3 0 0 0\<rparr>,
                        panelLightRef1 = Some \<lparr>light_position = multiplyScalar (center p0) 1.3,
                                                intensity = 4.0\<rparr>,
                        innerGlowRef1 = Some \<lparr>opacity = 0.06\<rparr>,
                        edgeColorAttr1 = edgeColors1 edge_count,
                        panels1 = ps,
                        beams1 = bs\<rparr>,
              lights1 = SceneLights_mounted1,
              camera1 = \<lparr>cam_position = Vector3 0 0 6, cam_lookAt = None\<rparr>,
              particles1 = \<lparr>positions = ParticleField_positions1,
                             pointsRef = Some \<lparr>position = Vector3 0 0 0, rotation = Vector3 0 0 0\<rparr>\<rparr>\<rparr>))))
       (panelGeos1 pos)"

definition sphere1_frame :: "real \<Rightarrow> sphere1_scene \<Rightarrow> sphere1_scene" where
  "sphere1_frame t sc =
     sc\<lparr>core1 := AICoreSphere_useFrame1 t (core1 sc),
        lights1 := SceneLights_useFrame1 t (lights1 sc),
        camera1 := CameraDrift_useFrame1 t (camera1 sc),
        particles1 := ParticleField_useFrame1 t (particles1 sc)\<rparr>"

definition sphere1_run :: "Vector3 list \<Rightarrow> nat \<Rightarrow> real list \<Rightarrow> (error + sphere1_scene) option" where
  "sphere1_run pos edge_count ts =
     map_option (\<lambda>r. ebind r (\<lambda>sc. Inr (fold sphere1_frame ts sc))) (sphere1_mount pos edge_count)"

definition sphere1_placements ::
  "sphere1_scene \<Rightarrow> real list \<times> Panel list \<times> Vector3 list list \<times> real list" where
  "sphere1_placements sc =
     (edgeColorAttr1 (core1 sc), panels1 (core1 sc), map line_points (beams1 (core1 sc)),
      positions (particles1 sc))"

section \<open>The second sphere scene\<close>

subsection \<open>AICoreSphere: geometry\<close>

definition edgeColors_body2 :: "nat \<Rightarrow> real list \<times> rng \<Rightarrow> real list \<times> rng" where
  "edgeColors_body2 i st = (case st of (colors, s) \<Rightarrow>
     let (b, s') = rand_sphere2 s in
     if b > 0.8 then
       (colors[i * 3 := 0.4, i * 3 + 1 := 1.0, i * 3 + 2 := 1.0], s')
     else if b > 0.4 then
       (colors[i * 3 := 0.0, i * 3 + 1 := 0.8, i * 3 + 2 := 0.8], s')
     else
       (colors[i * 3 := 0.0, i * 3 + 1 := 0.3, i * 3 + 2 := 0.3], s'))"

definition edgeColors2 :: "nat \<Rightarrow> real list" where
  "edgeColors2 count =
     fst (for_loop count edgeColors_body2 (replicate (count * 3) 0, seededRandom_sphere2 42))"

partial_function (option) faceIndices_loop2 :: "real \<Rightarrow> rng \<Rightarrow> int list \<Rightarrow> int list option" where
  "faceIndices_loop2 totalFaces s faceIndices =
     (if length faceIndices < 4
      then faceIndices_loop2 totalFaces (snd (rand_sphere2 s))
             (set_add faceIndices \<lfloor>fst (rand_sphere2 s) * totalFaces\<rfloor>)
      else Some faceIndices)"

definition faceIndices2 :: "nat \<Rightarrow> int list option" where
  "faceIndices2 pos_count =
     (let totalFaces = real pos_count / 3
      in faceIndices_loop2 totalFaces (seededRandom_sphere2 123) [])"

definition panelGeos2 :: "Vector3 list \<Rightarrow> (error + Panel list) option" where
  "panelGeos2 pos = map_option (emap (panel_of_face pos)) (faceIndices2 (length pos))"

definition beam_body2 ::
  "Vector3 list \<Rightarrow> nat \<Rightarrow> error + (Line list \<times> rng) \<Rightarrow> error + (Line list \<times> rng)" where
  "beam_body2 pos i st = ebind st (\<lambda>(objects, s).
     let (r1, s1) = rand_sphere2 s; idx = \<lfloor>r1 * real (length pos)\<rfloor>
     in ebind (fromBufferAttribute pos idx) (\<lambda>v.
       let dir = normalize v;
           start = multiplyScalar v 0.95;
           (r2, s2) = rand_sphere2 s1;
           end = addVectors v (multiplyScalar dir (4.0 + r2 * 5.0));
           (r3, s3) = rand_sphere2 s2;
           (r4, s4) = rand_sphere2 s3;
           line = \<lparr>line_points = [start, end],
                   line_hsl = (0.5 + r3 * 0.1, 0.9, 0.6),
                   line_opacity = 0.1 + r4 * 0.4\<rparr>
       in Inr (objects @ [line], s4)))"

definition beamObjects2 :: "Vector3 list \<Rightarrow> error + Line list" where
  "beamObjects2 pos =
     ebind (for_loop 15 (beam_body2 pos) (Inr ([], seededRandom_sphere2 200)))
       (\<lambda>(objects, s). Inr objects)"

definition particle_body2 :: "nat \<Rightarrow> real list \<times> rng \<Rightarrow> real list \<times> rng" where
  "particle_body2 i st = (case st of (arr, s) \<Rightarrow>
     let (r1, s1) = rand_sphere2 s; arr1 = arr[i * 3 := (r1 - 0.5) * 30];
         (r2, s2) = rand_sphere2 s1; arr2 = arr1[i * 3 + 1 := (r2 - 0.5) * 20];
         (r3, s3) = rand_sphere2 s2; arr3 = arr2[i * 3 + 2 := (r3 - 0.5) * 15]
     in (arr3, s3))"

definition ParticleField_positions2 :: "real list" where
  "ParticleField_positions2 =
     fst (for_loop 400 particle_body2 (replicate (400 * 3) 0, seededRandom_sphere2 999))"

subsection \<open>Math.random\<close>

text \<open>The second sphere scene also calls \<^verbatim>\<open>Math.random()\<close>, which the program does not
  seed. The model takes the values it returns from the environment: the sequence of the
  values still to come, each in \<open>[0, 1)\<close>.\<close>

type_synonym random_source = "nat \<Rightarrow> real"

definition Math_random :: "random_source \<Rightarrow> real \<times> random_source" where
  "Math_random src = (src 0, \<lambda>n. src (Suc n))"

definition unit_interval :: "random_source \<Rightarrow> bool" where
  "unit_interval src = (\<forall>n. 0 \<le> src n \<and> src n < 1)"

subsection \<open>Frame callbacks\<close>

record AICoreSphere2 =
  groupRef2 :: "Object3D option"
  orbitRingRef2 :: "Object3D option"
  panelLightRef2 :: "Light option"
  innerGlowRef2 :: "Material option"
  edgeColorAttr2 :: "real list"
  panels2 :: "Panel list"
  panelEmissive2 :: "real list"
  beams2 :: "Line list"

primrec beams_forEach2 ::
  "real \<Rightarrow> nat \<Rightarrow> Line list \<Rightarrow> random_source \<Rightarrow> Line list \<times> random_source" where
  "beams_forEach2 t i [] src = ([], src)"
| "beams_forEach2 t i (line # rest) src =
     (let (r, src1) = Math_random src;
          line' = line\<lparr>line_opacity := 0.1 + sin (t * 2.0 + real i * 10.0) * 0.1 + r * 0.05\<rparr>;
          (rest', src2) = beams_forEach2 t (i + 1) rest src1
      in (line' # rest', src2))"

definition AICoreSphere_useFrame2 ::
  "real \<Rightarrow> AICoreSphere2 \<times> random_source \<Rightarrow> AICoreSphere2 \<times> random_source" where
  "AICoreSphere_useFrame2 t st = (case st of (c, src) \<Rightarrow>
     let c1 = (case groupRef2 c of
                 None \<Rightarrow> c
               | Some g \<Rightarrow>
                   (let g1 = g\<lparr>rotation := Vector3 (vx (rotation g)) (t * 0.04) (vz (rotation g))\<rparr>;
                        g2 = g1\<lparr>rotation := Vector3 (sin (t * 0.02) * 0.05) (vy (rotation g1)) (vz (rotation g1))\<rparr>
                    in c\<lparr>groupRef2 := Some g2\<rparr>));
         c2 = (case orbitRingRef2 c1 of
                 None \<Rightarrow> c1
               | Some g \<Rightarrow>
                   (let g1 = g\<lparr>rotation := Vector3 (vx (rotation g)) (vy (rotation g)) (t * 0.1)\<rparr>;
                        g2 = g1\<lparr>rotation := Vector3 (pi / 2 + sin (t * 0.05) * 0.1) (vy (rotation g1)) (vz (rotation g1))\<rparr>
                    in c1\<lparr>orbitRingRef2 := Some g2\<rparr>));
         (c3, src3) = (case panelLightRef2 c2 of
                 None \<Rightarrow> (c2, src)
               | Some l \<Rightarrow>
                   (let (r, src') = Math_random src
                    in (c2\<lparr>panelLightRef2 := Some (l\<lparr>intensity := 15.0 + sin (t * 10.0) * 2.0 + r * 2.0\<rparr>)\<rparr>,
                        src')));
         c4 = (case innerGlowRef2 c3 of
                 None \<Rightarrow> c3
               | Some mat \<Rightarrow> c3\<lparr>innerGlowRef2 := Some (mat\<lparr>opacity := 0.05 + sin (t * 0.5) * 0.03\<rparr>)\<rparr>);
         (bs, src5) = beams_forEach2 t 0 (beams2 c4) src3
     in (c4\<lparr>beams2 := bs\<rparr>, src5))"

definition ParticleField_useFrame2 :: "real \<Rightarrow> ParticleField \<Rightarrow> ParticleField" where
  "ParticleField_useFrame2 t p =
     (case pointsRef p of
        None \<Rightarrow> p
      | Some o3 \<Rightarrow>
          (let o1 = o3\<lparr>rotation := Vector3 (vx (rotation o3)) (t * 0.02) (vz (rotation o3))\<rparr>;
               o2 = o1\<lparr>position := Vector3 (vx (position o1)) (sin (t * 0.1) * 0.5) (vz (position o1))\<rparr>
           in p\<lparr>pointsRef := Some o2\<rparr>))"

record sphere2_scene =
  core2 :: AICoreSphere2
  particles2 :: ParticleField

text \<open>Rendering the panels draws one \<^verbatim>\<open>Math.random()\<close> per panel for its emissive
  intensity.\<close>

primrec panel_emissive2 :: "Panel list \<Rightarrow> random_source \<Rightarrow> real list \<times> random_source" where
  "panel_emissive2 [] src = ([], src)"
| "panel_emissive2 (p # ps) src =
     (let (r, src1) = Math_random src;
          (es, src2) = panel_emissive2 ps src1
      in ((8.0 + r * 4.0) # es, src2))"

definition sphere2_mount ::
  "Vector3 list \<Rightarrow> nat \<Rightarrow> random_source \<Rightarrow> (error + sphere2_scene \<times> random_source) option" where
  "sphere2_mount pos edge_count src =
     map_option (\<lambda>panels.
       ebind panels (\<lambda>ps.
       ebind (beamObjects2 pos) (\<lambda>bs.
       ebind (case ps of [] \<Rightarrow> Inl TypeError | p0 # _ \<Rightarrow> Inr p0) (\<lambda>p0.
         let (es, src1) = panel_emissive2 ps src
         in Inr (\<lparr>core2 = \<lparr>groupRef2 = Some \<lparr>position = Vector3 0.5 0 0, rotation = Vector3 0 0 0\<rparr>,
                            orbitRingRef2 = Some \<lparr>position = Vector3 0 0 0, rotation = Vector3 0 0 0\<rparr>,
                            panelLightRef2 = Some \<lparr>light_position = multiplyScalar (center p0) 1.2,
                                                    intensity = 1\<rparr>,
                            innerGlowRef2 = Some \<lparr>opacity = 0.05\<rparr>,
                            edgeColorAttr2 = edgeColors2 edge_count,
                            panels2 = ps,
                            panelEmissive2 = es,
                            beams2 = bs\<rparr>,
                  particles2 = \<lparr>positions = ParticleField_positions2,
                                 pointsRef = Some \<lparr>position = Vector3 0 0 0, rotation = Vector3 0 0 0\<rparr>\<rparr>\<rparr>,
                 src1)))))
       (panelGeos2 pos)"

definition sphere2_frame :: "real \<Rightarrow> sphere2_scene \<times> random_source \<Rightarrow> sphere2_scene \<times> random_source" where
  "sphere2_frame t st = (case st of (sc, src) \<Rightarrow>
     let (c, src') = AICoreSphere_useFrame2 t (core2 sc, src)
     in (sc\<lparr>core2 := c, particles2 := ParticleField_useFrame2 t (particles2 sc)\<rparr>, src'))"

definition sphere2_run ::
  "Vector3 list \<Rightarrow> nat \<Rightarrow> random_source \<Rightarrow> real list \<Rightarrow> (error + sphere2_scene \<times> random_source) option" where
  "sphere2_run pos edge_count src ts =
     map_option (\<lambda>r. ebind r (\<lambda>st. Inr (fold sphere2_frame ts st))) (sphere2_mount pos edge_count src)"

definition sphere2_placements ::
  "sphere2_scene \<Rightarrow> real list \<times> Panel list \<times> Vector3 list list \<times> real list" where
  "sphere2_placements sc =
     (edgeColorAttr2 (core2 sc), panels2 (core2 sc), map line_points (beams2 (core2 sc)),
      positions (particles2 sc))"

section \<open>Predicates used in the statements\<close>

text \<open>A greeble of the top and bottom rows (the first 100 instances) lies at \<open>|y| \<ge> 1\<close>,
  one of the side columns at \<open>|x| \<ge> 1\<close>.\<close>

definition greeble_ok :: "nat \<Rightarrow> Matrix4 \<Rightarrow> bool" where
  "greeble_ok i m = (if i < 100 then 1 \<le> \<bar>vy (m_position m)\<bar> else 1 \<le> \<bar>vx (m_position m)\<bar>)"

definition greeble_inv :: "nat \<Rightarrow> error + (rng \<times> nat \<times> InstancedMesh) \<Rightarrow> bool" where
  "greeble_inv i st =
     (case st of
        Inl e \<Rightarrow> False
      | Inr (s, idx, mesh) \<Rightarrow>
          valid_state s \<and> idx = i \<and> length (instanceMatrix mesh) = 200
          \<and> (\<forall>j<i. greeble_ok j (instanceMatrix mesh ! j)))"

text \<open>The \<open>k\<close>-th trace of a circuit geometry is the four points \<open>4k, \<dots>, 4k + 3\<close>: the
  segment from the start point \<open>p1\<close> on the border to the turn point \<open>p2\<close> keeps \<open>x\<close>, the
  segment from \<open>p2\<close> (pushed a second time) to the end point \<open>p3\<close> keeps \<open>y\<close>.\<close>

definition trace_ok :: "Vector3 list \<Rightarrow> nat \<Rightarrow> bool" where
  "trace_ok pts k =
     (let p1 = pts ! (4 * k); p2 = pts ! (4 * k + 1); p2' = pts ! (4 * k + 2); p3 = pts ! (4 * k + 3)
      in vx p1 = vx p2 \<and> p2' = p2 \<and> vy p2 = vy p3
         \<and> (\<bar>vx p1\<bar> = 1.3 \<or> \<bar>vy p1\<bar> = 1.3))"

definition new_trace_ok :: "Vector3 list \<Rightarrow> bool" where
  "new_trace_ok q =
     (length q = 4 \<and> (\<forall>p \<in> set q. vz p = 0) \<and> vx (q ! 0) = vx (q ! 1) \<and> q ! 2 = q ! 1
      \<and> vy (q ! 1) = vy (q ! 3) \<and> (\<bar>vx (q ! 0)\<bar> = 1.3 \<or> \<bar>vy (q ! 0)\<bar> = 1.3))"

definition circuit_inv :: "nat \<Rightarrow> Vector3 list \<times> rng \<Rightarrow> bool" where
  "circuit_inv i st =
     (length (fst st) = 4 * i \<and> (\<forall>p \<in> set (fst st). vz p = 0) \<and> (\<forall>k<i. trace_ok (fst st) k))"

text \<open>Invariants of the panel-selection loops and of the beam loops.\<close>

definition face_range :: "real \<Rightarrow> int list \<Rightarrow> bool" where
  "face_range totalFaces fis = (\<forall>fi \<in> set fis. 0 \<le> fi \<and> real_of_int fi < totalFaces)"

definition beam_inv :: "nat \<Rightarrow> error + (Line list \<times> rng) \<Rightarrow> bool" where
  "beam_inv i st =
     (case st of Inl e \<Rightarrow> False | Inr (objects, s) \<Rightarrow> valid_state s \<and> length objects = i)"

text \<open>Ranges of colours and opacities, and two states used as examples.\<close>

definition unit_range :: "real list \<Rightarrow> bool" where
  "unit_range cs = (\<forall>c \<in> set cs. 0 \<le> c \<and> c \<le> 1)"

definition opacity_range :: "Line list \<Rightarrow> bool" where
  "opacity_range ls = (\<forall>l \<in> set ls. 0 \<le> line_opacity l \<and> line_opacity l \<le> 1)"

definition color_inv :: "nat \<Rightarrow> real list \<times> rng \<Rightarrow> bool" where
  "color_inv i st = (unit_range (fst st) \<and> valid_state (snd st))"

definition example_core1 :: AICoreSphere1 where
  "example_core1 =
     \<lparr>groupRef1 = None, panelLightRef1 = None, innerGlowRef1 = Some \<lparr>opacity = 0.06\<rparr>,
      edgeColorAttr1 = [], panels1 = [],
      beams1 = [\<lparr>line_points = [], line_hsl = (0.5, 0.9, 0.55), line_opacity = 0.5\<rparr>]\<rparr>"

definition example_core2 :: AICoreSphere2 where
  "example_core2 =
     \<lparr>groupRef2 = None, orbitRingRef2 = None,
      panelLightRef2 = Some \<lparr>light_position = Vector3 0 0 0, intensity = 1\<rparr>,
      innerGlowRef2 = Some \<lparr>opacity = 0.05\<rparr>,
      edgeColorAttr2 = [], panels2 = [], panelEmissive2 = [],
      beams2 = [\<lparr>line_points = [], line_hsl = (0.5, 0.9, 0.6), line_opacity = 0.3\<rparr>]\<rparr>"

section \<open>Properties of the generator\<close>

lemma js_rem_nonneg: "0 \<le> a \<Longrightarrow> js_rem a 2147483647 = a mod 2147483647"
  by (simp add: js_rem_def)

lemma lcg_nonzero:
  fixes s :: int
  assumes "1 \<le> s" "s \<le> 2147483646"
  shows "(s * 16807) mod 2147483647 \<noteq> 0"
proof
  assume z: "(s * 16807) mod 2147483647 = 0"
  have "(s * 16807 * 1407677000) mod 2147483647
      = ((s * 16807) mod 2147483647 * 1407677000) mod 2147483647"
    by (simp add: mod_mult_left_eq)
  also have "\<dots> = 0" using z by simp
  finally have a: "(s * 16807 * 1407677000) mod 2147483647 = 0" .
  have "s * 16807 * 1407677000 = s + 2147483647 * (s * 11017)" by simp
  then have "(s * 16807 * 1407677000) mod 2147483647 = s mod 2147483647"
    by (simp only: mod_mult_self2)
  with a have "s mod 2147483647 = 0" by simp
  moreover have "s mod 2147483647 = s" using assms by simp
  ultimately show False using assms by simp
qed

lemma lcg_step_valid:
  fixes s :: int
  assumes "1 \<le> s" "s \<le> 2147483646"
  shows "1 \<le> (s * 16807) mod 2147483647" "(s * 16807) mod 2147483647 \<le> 2147483646"
proof -
  have "0 \<le> (s * 16807) mod 2147483647" by simp
  with lcg_nonzero [OF assms] show "1 \<le> (s * 16807) mod 2147483647" by linarith
  have "(s * 16807) mod 2147483647 < 2147483647" by simp
  then show "(s * 16807) mod 2147483647 \<le> 2147483646" by linarith
qed

lemma rand_valid:
  assumes "valid_state s"
  shows "valid_state (snd (rand s))" "0 \<le> fst (rand s)" "fst (rand s) < 1"
proof -
  from assms have b: "1 \<le> s" "s \<le> 2147483646" by (simp_all add: valid_state_def)
  then have nn: "0 \<le> s * 16807" by simp
  have st: "snd (rand s) = (s * 16807) mod 2147483647"
    by (simp add: rand_def Let_def js_rem_nonneg [OF nn])
  have v: "fst (rand s) = real_of_int ((s * 16807) mod 2147483647 - 1) / 2147483646"
    by (simp add: rand_def Let_def js_rem_nonneg [OF nn])
  note r = lcg_step_valid [OF b]
  show "valid_state (snd (rand s))" using r by (simp add: st valid_state_def)
  show "0 \<le> fst (rand s)" using r by (simp add: v)
  have "real_of_int ((s * 16807) mod 2147483647 - 1) < 2147483646" using r by linarith
  then show "fst (rand s) < 1" by (simp add: v)
qed

lemma rand_sphere1_eq: "rand_sphere1 = rand"
  by (simp add: fun_eq_iff rand_sphere1_def rand_def)

lemma rand_sphere2_eq: "rand_sphere2 = rand"
  by (simp add: fun_eq_iff rand_sphere2_def rand_def)

lemma seededRandom_sphere1_eq: "seededRandom_sphere1 = seededRandom"
  by (simp add: fun_eq_iff seededRandom_sphere1_def seededRandom_def)

lemma seededRandom_sphere2_eq: "seededRandom_sphere2 = seededRandom"
  by (simp add: fun_eq_iff seededRandom_sphere2_def seededRandom_def)

lemma state_after_valid:
  "valid_state s \<Longrightarrow> valid_state (state_after rand s n)"
  by (induction n) (simp_all add: rand_valid)

lemma valid_seed: "0 < seed \<Longrightarrow> seed < 2147483647 \<Longrightarrow> valid_state (seededRandom seed)"
  by (simp add: valid_state_def seededRandom_def)

text \<open>On a non-negative seed the closure is the generator of the specification's words.\<close>

lemma state_after_spec_lcg:
  "0 \<le> seed \<Longrightarrow> state_after rand (seededRandom seed) n = spec_lcg_iter seed n
     \<and> 0 \<le> spec_lcg_iter seed n"
proof (induction n)
  case 0
  then show ?case by (simp add: seededRandom_def)
next
  case (Suc n)
  then have nn: "0 \<le> spec_lcg_iter seed n * 16807" by simp
  show ?case using Suc
    by (simp add: rand_def Let_def js_rem_nonneg [OF nn] spec_lcg_state_def)
qed

lemma nth_value_spec_lcg:
  assumes "0 \<le> seed" "1 \<le> n"
  shows "nth_value rand (seededRandom seed) n = spec_lcg_value seed n"
proof -
  from assms(2) obtain k where n: "n = Suc k" by (cases n) simp_all
  from state_after_spec_lcg [OF assms(1), of k]
  have p: "state_after rand (seededRandom seed) k = spec_lcg_iter seed k"
    and nn: "0 \<le> spec_lcg_iter seed k * 16807" by simp_all
  show ?thesis
    by (simp add: n nth_value_def p rand_def Let_def js_rem_nonneg [OF nn]
        spec_lcg_value_def spec_lcg_state_def)
qed

text \<open>
  Claim C8. For every integer seed \<open>s0\<close> with \<open>0 < s0 < 2147483647\<close>, every call of the
  closure returned by \<open>seededRandom\<close> (in any of the three files) leaves its variable in
  \<open>[1, 2147483646]\<close> and returns a value in \<open>[0, 1)\<close>, and the product \<open>s * 16807\<close>
  formed by the call is a non-negative integer below \<open>2^53\<close>, so it is computed exactly.
\<close>

theorem seededRandom_range:
  assumes "0 < s0" "s0 < 2147483647" "1 \<le> n"
    and "(call, mk) = (rand, seededRandom) \<or> (call, mk) = (rand_sphere1, seededRandom_sphere1)
       \<or> (call, mk) = (rand_sphere2, seededRandom_sphere2)"
  shows "1 \<le> state_after call (mk s0) n
       \<and> state_after call (mk s0) n \<le> 2147483646
       \<and> 0 \<le> nth_value call (mk s0) n
       \<and> nth_value call (mk s0) n < 1
       \<and> 0 \<le> state_after call (mk s0) (n - 1) * 16807
       \<and> state_after call (mk s0) (n - 1) * 16807 < 2 ^ 53"
proof -
  from assms(4) have c: "call = rand" "mk = seededRandom"
    by (auto simp: rand_sphere1_eq rand_sphere2_eq seededRandom_sphere1_eq
        seededRandom_sphere2_eq)
  from assms have v0: "valid_state (seededRandom s0)" by (simp add: valid_seed)
  let ?p = "state_after rand (seededRandom s0) (n - 1)"
  have vp: "valid_state ?p" by (rule state_after_valid [OF v0])
  have vn: "valid_state (state_after rand (seededRandom s0) n)"
    by (rule state_after_valid [OF v0])
  from vp have b: "1 \<le> ?p" "?p \<le> 2147483646" by (simp_all add: valid_state_def)
  have "?p * 16807 \<le> 2147483646 * 16807" using b by simp
  then have prod: "0 \<le> ?p * 16807" "?p * 16807 < 2 ^ 53" using b by simp_all
  have val: "0 \<le> nth_value rand (seededRandom s0) n" "nth_value rand (seededRandom s0) n < 1"
    using rand_valid [OF vp] by (simp_all add: nth_value_def)
  from vn val prod show ?thesis unfolding c by (simp add: valid_state_def)
qed

theorem seededRandom_range_witness:
  "1 \<le> state_after rand_sphere1 (seededRandom_sphere1 42) 2
   \<and> state_after rand_sphere1 (seededRandom_sphere1 42) 2 \<le> 2147483646
   \<and> 0 \<le> nth_value rand_sphere1 (seededRandom_sphere1 42) 2
   \<and> nth_value rand_sphere1 (seededRandom_sphere1 42) 2 < 1
   \<and> 0 \<le> state_after rand_sphere1 (seededRandom_sphere1 42) (2 - 1) * 16807
   \<and> state_after rand_sphere1 (seededRandom_sphere1 42) (2 - 1) * 16807 < 2 ^ 53
   \<and> state_after rand_sphere1 (seededRandom_sphere1 42) 2 = 1126542223
   \<and> state_after rand_sphere1 (seededRandom_sphere1 42) (2 - 1) = 705894"
proof -
  have e: "state_after rand_sphere1 (seededRandom_sphere1 42) 2 = 1126542223"
    "state_after rand_sphere1 (seededRandom_sphere1 42) (2 - 1) = 705894"
    by (simp_all add: numeral_2_eq_2 rand_sphere1_def seededRandom_sphere1_def js_rem_def Let_def)
  show ?thesis
    using seededRandom_range [of 42 2 rand_sphere1 seededRandom_sphere1] e by simp
qed

text \<open>
  Claim C5. The three files define the same generator: for every seed and every \<open>n\<close>,
  the \<open>n\<close>-th value returned by the closure of the chip scene, of the first sphere scene
  and of the second sphere scene is the same, and so is the closure's variable.
\<close>

theorem seededRandom_three_equal:
  "nth_value rand (seededRandom seed) n = nth_value rand_sphere1 (seededRandom_sphere1 seed) n
   \<and> nth_value rand_sphere1 (seededRandom_sphere1 seed) n
     = nth_value rand_sphere2 (seededRandom_sphere2 seed) n
   \<and> state_after rand (seededRandom seed) n
     = state_after rand_sphere1 (seededRandom_sphere1 seed) n
   \<and> state_after rand_sphere1 (seededRandom_sphere1 seed) n
     = state_after rand_sphere2 (seededRandom_sphere2 seed) n"
proof -
  have s1: "state_after rand_sphere1 (seededRandom_sphere1 seed) k
          = state_after rand (seededRandom seed) k" for k
    by (induction k)
      (simp_all add: seededRandom_sphere1_def seededRandom_def rand_sphere1_def rand_def)
  have s2: "state_after rand_sphere2 (seededRandom_sphere2 seed) k
          = state_after rand (seededRandom seed) k" for k
    by (induction k)
      (simp_all add: seededRandom_sphere2_def seededRandom_def rand_sphere2_def rand_def)
  show ?thesis
    by (simp add: nth_value_def s1 s2 rand_sphere1_def rand_sphere2_def rand_def)
qed

section \<open>Loops\<close>

lemma for_loop_0: "for_loop 0 body init = init"
  by (simp add: for_loop_def)

lemma for_loop_Suc: "for_loop (Suc n) body init = body n (for_loop n body init)"
  by (simp add: for_loop_def)

lemma for_loop_invariant:
  assumes "P 0 init" and "\<And>i st. i < n \<Longrightarrow> P i st \<Longrightarrow> P (Suc i) (body i st)"
  shows "P n (for_loop n body init)"
proof -
  have "k \<le> n \<Longrightarrow> P k (for_loop k body init)" for k
  proof (induction k)
    case 0
    show ?case using assms(1) by (simp add: for_loop_0)
  next
    case (Suc k)
    then show ?case using assms(2) [of k] by (simp add: for_loop_Suc)
  qed
  then show ?thesis by simp
qed

lemma rand_validE:
  assumes "valid_state s"
  obtains r s' where "rand s = (r, s')" "0 \<le> r" "r < 1" "valid_state s'"
  using rand_valid [OF assms] by (cases "rand s") auto

section \<open>The greebles of the chip scene\<close>

lemma greeble_body_step:
  assumes "valid_state s" "idx < length (instanceMatrix mesh)"
  shows "case greeble_body i (Inr (s, idx, mesh)) of
           Inl e \<Rightarrow> False
         | Inr (s', idx', mesh') \<Rightarrow>
             valid_state s' \<and> idx' = idx + 1
             \<and> length (instanceMatrix mesh') = length (instanceMatrix mesh)
             \<and> greeble_ok i (instanceMatrix mesh' ! idx)
             \<and> (\<forall>j. j \<noteq> idx \<longrightarrow> instanceMatrix mesh' ! j = instanceMatrix mesh ! j)"
proof -
  from assms(1) obtain r1 s1 where 1: "rand s = (r1, s1)" "0 \<le> r1" "r1 < 1" "valid_state s1"
    by (rule rand_validE)
  from 1(4) obtain r2 s2 where 2: "rand s1 = (r2, s2)" "0 \<le> r2" "r2 < 1" "valid_state s2"
    by (rule rand_validE)
  from 2(4) obtain r3 s3 where 3: "rand s2 = (r3, s3)" "0 \<le> r3" "r3 < 1" "valid_state s3"
    by (rule rand_validE)
  from 3(4) obtain r4 s4 where 4: "rand s3 = (r4, s4)" "0 \<le> r4" "r4 < 1" "valid_state s4"
    by (rule rand_validE)
  show ?thesis
    using assms(2) 1 2 3 4
    by (simp add: greeble_body_def ebind_def setMatrixAt_def Let_def greeble_ok_def abs_mult)
qed

lemma greeble_inv_step:
  assumes "i < 200" "greeble_inv i st"
  shows "greeble_inv (Suc i) (greeble_body i st)"
proof -
  from assms(2) obtain s mesh where st: "st = Inr (s, i, mesh)"
    and v: "valid_state s" and len: "length (instanceMatrix mesh) = 200"
    and ok: "\<forall>j<i. greeble_ok j (instanceMatrix mesh ! j)"
    by (auto simp: greeble_inv_def split: sum.splits)
  from assms(1) len have "i < length (instanceMatrix mesh)" by simp
  from greeble_body_step [OF v this, of i] ok len show ?thesis
    by (auto simp: st greeble_inv_def less_Suc_eq split: sum.splits)
qed

lemma greeble_loop_inv:
  "greeble_inv 200 (for_loop 200 greeble_body (Inr (seededRandom 1337, 0, new_InstancedMesh 200)))"
proof (rule for_loop_invariant)
  show "greeble_inv 0 (Inr (seededRandom 1337, 0, new_InstancedMesh 200))"
    by (simp add: greeble_inv_def valid_state_def seededRandom_def new_InstancedMesh_def)
qed (rule greeble_inv_step)

lemma MicroGreebles_placed:
  "\<exists>mesh. MicroGreebles_layoutEffect (Some (new_InstancedMesh 200)) = Inr (Some mesh)
     \<and> mesh_count mesh = 200 \<and> length (instanceMatrix mesh) = 200
     \<and> (\<forall>j<200. greeble_ok j (instanceMatrix mesh ! j))"
  using greeble_loop_inv
  by (auto simp: MicroGreebles_layoutEffect_def greeble_inv_def ebind_def split: sum.splits)

text \<open>
  Claim C10. The layout effect of \<open>MicroGreebles\<close>, run on the mesh of 200 instances the
  component renders, places every instance: the first 100 at \<open>|y| \<ge> 1\<close>, the other 100
  at \<open>|x| \<ge> 1\<close>, so that none lies in the open square \<open>|x| < 1\<close>, \<open>|y| < 1\<close>; and it
  leaves the mesh's count at 200.
\<close>

theorem greebles_avoid_core:
  "\<exists>mesh. MicroGreebles_layoutEffect (Some (new_InstancedMesh 200)) = Inr (Some mesh)
     \<and> mesh_count mesh = 200
     \<and> (\<forall>i<200.
          (if i < 100 then 1 \<le> \<bar>vy (m_position (instanceMatrix mesh ! i))\<bar>
           else 1 \<le> \<bar>vx (m_position (instanceMatrix mesh ! i))\<bar>)
          \<and> \<not> (\<bar>vx (m_position (instanceMatrix mesh ! i))\<bar> < 1
                \<and> \<bar>vy (m_position (instanceMatrix mesh ! i))\<bar> < 1))"
proof -
  from MicroGreebles_placed obtain mesh where
    m: "MicroGreebles_layoutEffect (Some (new_InstancedMesh 200)) = Inr (Some mesh)"
      "mesh_count mesh = 200"
    and ok: "\<forall>j<200. greeble_ok j (instanceMatrix mesh ! j)"
    by blast
  have "(if i < 100 then 1 \<le> \<bar>vy (m_position (instanceMatrix mesh ! i))\<bar>
         else 1 \<le> \<bar>vx (m_position (instanceMatrix mesh ! i))\<bar>)
        \<and> \<not> (\<bar>vx (m_position (instanceMatrix mesh ! i))\<bar> < 1
              \<and> \<bar>vy (m_position (instanceMatrix mesh ! i))\<bar> < 1)" if "i < 200" for i
    using ok that by (auto simp: greeble_ok_def split: if_splits)
  with m show ?thesis by blast
qed

theorem greebles_avoid_core_witness:
  "\<exists>mesh. MicroGreebles_layoutEffect (Some (new_InstancedMesh 200)) = Inr (Some mesh)
     \<and> mesh_count mesh = 200
     \<and> 1 \<le> \<bar>vy (m_position (instanceMatrix mesh ! 0))\<bar>
     \<and> 1 \<le> \<bar>vy (m_position (instanceMatrix mesh ! 99))\<bar>
     \<and> 1 \<le> \<bar>vx (m_position (instanceMatrix mesh ! 100))\<bar>
     \<and> 1 \<le> \<bar>vx (m_position (instanceMatrix mesh ! 199))\<bar>"
proof -
  from greebles_avoid_core obtain mesh where
    m: "MicroGreebles_layoutEffect (Some (new_InstancedMesh 200)) = Inr (Some mesh)"
      "mesh_count mesh = 200"
    and ok: "\<forall>i<200.
          (if i < 100 then 1 \<le> \<bar>vy (m_position (instanceMatrix mesh ! i))\<bar>
           else 1 \<le> \<bar>vx (m_position (instanceMatrix mesh ! i))\<bar>)
          \<and> \<not> (\<bar>vx (m_position (instanceMatrix mesh ! i))\<bar> < 1
                \<and> \<bar>vy (m_position (instanceMatrix mesh ! i))\<bar> < 1)"
    by blast
  from ok [rule_format, of 0] ok [rule_format, of 99] ok [rule_format, of 100]
    ok [rule_format, of 199] m
  show ?thesis by simp
qed

section \<open>Circuit traces\<close>

lemma circuit_body_shape:
  "\<exists>q. fst (circuit_body variance i (points, s)) = points @ q \<and> new_trace_ok q"
proof -
  obtain r1 s1 where 1: "rand s = (r1, s1)" by (cases "rand s")
  obtain r2 s2 where 2: "rand s1 = (r2, s2)" by (cases "rand s1")
  obtain r3 s3 where 3: "rand s2 = (r3, s3)" by (cases "rand s2")
  obtain r4 s4 where 4: "rand s3 = (r4, s4)" by (cases "rand s3")
  show ?thesis
    by (simp add: circuit_body_def Let_def 1 2 3 4 new_trace_ok_def)
qed

lemma trace_ok_append:
  assumes "4 * k + 3 < length pts"
  shows "trace_ok (pts @ qs) k = trace_ok pts k"
  using assms by (simp add: trace_ok_def nth_append)

lemma trace_ok_new:
  assumes "length pts = 4 * i" "new_trace_ok q"
  shows "trace_ok (pts @ q) i"
  using assms by (auto simp: trace_ok_def new_trace_ok_def nth_append)

lemma circuit_inv_step:
  assumes "circuit_inv i st"
  shows "circuit_inv (Suc i) (circuit_body variance i st)"
proof -
  obtain points s where st: "st = (points, s)" by (cases st)
  from assms have len: "length points = 4 * i" and z: "\<forall>p \<in> set points. vz p = 0"
    and ok: "\<forall>k<i. trace_ok points k"
    by (simp_all add: circuit_inv_def st)
  from circuit_body_shape [of variance i points s]
  obtain q where b: "fst (circuit_body variance i (points, s)) = points @ q"
    and q: "new_trace_ok q"
    by blast
  have old: "trace_ok (points @ q) k" if "k < i" for k
  proof -
    from that len have "4 * k + 3 < length points" by simp
    then show ?thesis using ok that by (simp only: trace_ok_append)
  qed
  have all: "\<forall>k<Suc i. trace_ok (points @ q) k"
    using old trace_ok_new [OF len q] by (auto simp: less_Suc_eq)
  from q have "length q = 4" "\<forall>p \<in> set q. vz p = 0" by (simp_all add: new_trace_ok_def)
  then show ?thesis
    unfolding st circuit_inv_def b using len z all by auto
qed

lemma createCircuitGeo_inv:
  "circuit_inv count (for_loop count (circuit_body variance) ([], seededRandom seed))"
proof (rule for_loop_invariant)
  show "circuit_inv 0 ([], seededRandom seed)" by (simp add: circuit_inv_def)
qed (rule circuit_inv_step)

lemma circuit_example:
  "createCircuitGeo 1 0.3 42
     = [Vector3 0 1.3 0, Vector3 0 (- 0.2) 0, Vector3 0 (- 0.2) 0, Vector3 0.2 (- 0.2) 0]"
proof -
  have 1: "rand 42 = (705893 / 2147483646, 705894)"
    by (simp add: rand_def js_rem_def Let_def)
  have 2: "rand 705894 = (1126542222 / 2147483646, 1126542223)"
    by (simp add: rand_def js_rem_def Let_def)
  have 3: "rand 1126542223 = (1579310008 / 2147483646, 1579310009)"
    by (simp add: rand_def js_rem_def Let_def)
  have 4: "rand 1579310009 = (565444342 / 2147483646, 565444343)"
    by (simp add: rand_def js_rem_def Let_def)
  show ?thesis
    by (simp add: createCircuitGeo_def for_loop_def circuit_body_def seededRandom_def
        js_round_def Let_def 1 2 3 4)
qed

text \<open>
  Claim C9. For every count (a natural number of iterations), every variance and every
  integer seed, \<open>createCircuitGeo\<close> produces exactly \<open>4 * count\<close> points, all with
  \<open>z = 0\<close>; the four points of each trace are two segments, the first of constant \<open>x\<close>
  from a start point on the border (\<open>|x| = 1.3\<close> or \<open>|y| = 1.3\<close>) to the turn point, the
  second of constant \<open>y\<close> from the turn point to the end point.
\<close>

theorem createCircuitGeo_orthogonal:
  "length (createCircuitGeo count variance seed) = 4 * count
   \<and> (\<forall>p \<in> set (createCircuitGeo count variance seed). vz p = 0)
   \<and> (\<forall>k<count. trace_ok (createCircuitGeo count variance seed) k)"
  using createCircuitGeo_inv [of count variance seed]
  by (simp add: circuit_inv_def createCircuitGeo_def)

theorem createCircuitGeo_orthogonal_witness:
  "createCircuitGeo 1 0.3 42
     = [Vector3 0 1.3 0, Vector3 0 (- 0.2) 0, Vector3 0 (- 0.2) 0, Vector3 0.2 (- 0.2) 0]
   \<and> length (createCircuitGeo 1 0.3 42) = 4 * 1
   \<and> vz (createCircuitGeo 1 0.3 42 ! 3) = 0
   \<and> trace_ok (createCircuitGeo 1 0.3 42) 0"
proof -
  from createCircuitGeo_orthogonal [of 1 "0.3" 42]
  have "length (createCircuitGeo 1 0.3 42) = 4 * 1"
    and z: "\<forall>p \<in> set (createCircuitGeo 1 0.3 42). vz p = 0"
    and "trace_ok (createCircuitGeo 1 0.3 42) 0"
    by simp_all
  moreover have "createCircuitGeo 1 0.3 42 ! 3 \<in> set (createCircuitGeo 1 0.3 42)"
    unfolding circuit_example by simp
  ultimately show ?thesis using circuit_example by blast
qed

section \<open>Panels and beams of the sphere scenes\<close>

lemma faceIndices1_240: "faceIndices1 240 = Some [0, 10, 14]"
  unfolding faceIndices1_def Let_def seededRandom_sphere1_def
  apply (subst faceIndices_loop1.simps, simp add: rand_sphere1_def js_rem_def Let_def set_add_def)
  apply (subst faceIndices_loop1.simps, simp add: rand_sphere1_def js_rem_def Let_def set_add_def)
  apply (subst faceIndices_loop1.simps, simp add: rand_sphere1_def js_rem_def Let_def set_add_def)
  apply (subst faceIndices_loop1.simps, simp add: rand_sphere1_def js_rem_def Let_def set_add_def)
  done

lemma faceIndices2_240: "faceIndices2 240 = Some [0, 14, 75, 33]"
  unfolding faceIndices2_def Let_def seededRandom_sphere2_def
  apply (subst faceIndices_loop2.simps, simp add: rand_sphere2_def js_rem_def Let_def set_add_def)
  apply (subst faceIndices_loop2.simps, simp add: rand_sphere2_def js_rem_def Let_def set_add_def)
  apply (subst faceIndices_loop2.simps, simp add: rand_sphere2_def js_rem_def Let_def set_add_def)
  apply (subst faceIndices_loop2.simps, simp add: rand_sphere2_def js_rem_def Let_def set_add_def)
  apply (subst faceIndices_loop2.simps, simp add: rand_sphere2_def js_rem_def Let_def set_add_def)
  done


lemma floor_scaled_range:
  fixes r tf :: real
  assumes "0 \<le> r" "r < 1" "0 < tf"
  shows "0 \<le> \<lfloor>r * tf\<rfloor>" "real_of_int \<lfloor>r * tf\<rfloor> < tf"
proof -
  from assms have "0 \<le> r * tf" by simp
  then show "0 \<le> \<lfloor>r * tf\<rfloor>" by simp
  have "real_of_int \<lfloor>r * tf\<rfloor> \<le> r * tf" by simp
  also have "r * tf < 1 * tf" using assms by (simp only: mult_strict_right_mono)
  finally show "real_of_int \<lfloor>r * tf\<rfloor> < tf" by simp
qed

lemma face_range_add:
  assumes "face_range tf fis" "valid_state s" "0 < tf"
  shows "face_range tf (set_add fis \<lfloor>fst (rand s) * tf\<rfloor>)"
  using assms floor_scaled_range [OF rand_valid(2,3) [OF assms(2)] assms(3)]
  by (auto simp: face_range_def set_add_def)

lemma faceIndices_loop1_range:
  assumes run: "faceIndices_loop1 tf0 s0 fis0 = Some res0"
    and "valid_state s0" "0 < tf0" "face_range tf0 fis0"
  shows "face_range tf0 res0"
proof -
  have "valid_state s0 \<longrightarrow> 0 < tf0 \<longrightarrow> face_range tf0 fis0 \<longrightarrow> face_range tf0 res0"
  proof (rule faceIndices_loop1.raw_induct
      [where P = "\<lambda>tf s fis res. valid_state s \<longrightarrow> 0 < tf \<longrightarrow> face_range tf fis \<longrightarrow> face_range tf res"])
    show "faceIndices_loop1 tf0 s0 fis0 = Some res0" by (rule run)
  next
    fix loop :: "real \<Rightarrow> int \<Rightarrow> int list \<Rightarrow> int list option" and tf s fis res
    assume IH: "\<And>tf s fis res. loop tf s fis = Some res \<Longrightarrow>
        valid_state s \<longrightarrow> 0 < tf \<longrightarrow> face_range tf fis \<longrightarrow> face_range tf res"
      and eq: "(if length fis < 3
          then loop tf (snd (rand_sphere1 s)) (set_add fis \<lfloor>fst (rand_sphere1 s) * tf\<rfloor>)
          else Some fis) = Some res"
    show "valid_state s \<longrightarrow> 0 < tf \<longrightarrow> face_range tf fis \<longrightarrow> face_range tf res"
    proof (intro impI)
      assume v: "valid_state s" and pos: "0 < tf" and r: "face_range tf fis"
      show "face_range tf res"
      proof (cases "length fis < 3")
        case True
        with eq have call: "loop tf (snd (rand_sphere1 s))
            (set_add fis \<lfloor>fst (rand_sphere1 s) * tf\<rfloor>) = Some res" by simp
        have v': "valid_state (snd (rand_sphere1 s))"
          using rand_valid(1) [OF v] by (simp add: rand_sphere1_eq)
        have r': "face_range tf (set_add fis \<lfloor>fst (rand_sphere1 s) * tf\<rfloor>)"
          using face_range_add [OF r v pos] by (simp add: rand_sphere1_eq)
        from IH [OF call] v' pos r' show ?thesis by blast
      next
        case False
        with eq r show ?thesis by simp
      qed
    qed
  qed
  with assms show ?thesis by blast
qed

lemma faceIndices_loop2_range:
  assumes run: "faceIndices_loop2 tf0 s0 fis0 = Some res0"
    and "valid_state s0" "0 < tf0" "face_range tf0 fis0"
  shows "face_range tf0 res0"
proof -
  have "valid_state s0 \<longrightarrow> 0 < tf0 \<longrightarrow> face_range tf0 fis0 \<longrightarrow> face_range tf0 res0"
  proof (rule faceIndices_loop2.raw_induct
      [where P = "\<lambda>tf s fis res. valid_state s \<longrightarrow> 0 < tf \<longrightarrow> face_range tf fis \<longrightarrow> face_range tf res"])
    show "faceIndices_loop2 tf0 s0 fis0 = Some res0" by (rule run)
  next
    fix loop :: "real \<Rightarrow> int \<Rightarrow> int list \<Rightarrow> int list option" and tf s fis res
    assume IH: "\<And>tf s fis res. loop tf s fis = Some res \<Longrightarrow>
        valid_state s \<longrightarrow> 0 < tf \<longrightarrow> face_range tf fis \<longrightarrow> face_range tf res"
      and eq: "(if length fis < 4
          then loop tf (snd (rand_sphere2 s)) (set_add fis \<lfloor>fst (rand_sphere2 s) * tf\<rfloor>)
          else Some fis) = Some res"
    show "valid_state s \<longrightarrow> 0 < tf \<longrightarrow> face_range tf fis \<longrightarrow> face_range tf res"
    proof (intro impI)
      assume v: "valid_state s" and pos: "0 < tf" and r: "face_range tf fis"
      show "face_range tf res"
      proof (cases "length fis < 4")
        case True
        with eq have call: "loop tf (snd (rand_sphere2 s))
            (set_add fis \<lfloor>fst (rand_sphere2 s) * tf\<rfloor>) = Some res" by simp
        have v': "valid_state (snd (rand_sphere2 s))"
          using rand_valid(1) [OF v] by (simp add: rand_sphere2_eq)
        have r': "face_range tf (set_add fis \<lfloor>fst (rand_sphere2 s) * tf\<rfloor>)"
          using face_range_add [OF r v pos] by (simp add: rand_sphere2_eq)
        from IH [OF call] v' pos r' show ?thesis by blast
      next
        case False
        with eq r show ?thesis by simp
      qed
    qed
  qed
  with assms show ?thesis by blast
qed

lemma face_index_in_bounds:
  assumes "3 dvd n" "0 \<le> fi" "real_of_int fi < real n / 3"
  shows "fi * 3 + 2 < int n"
proof -
  from assms(1) obtain k where n: "n = 3 * k" by (elim dvdE)
  from assms(3) have "real_of_int fi < real k" by (simp add: n)
  then have "fi < int k" by linarith
  then show ?thesis by (simp add: n)
qed

lemma faceIndices1_bounds:
  assumes "0 < n" "3 dvd n" "faceIndices1 n = Some fis"
  shows "\<forall>fi \<in> set fis. 0 \<le> fi \<and> fi * 3 + 2 < int n"
proof -
  have "face_range (real n / 3) fis"
  proof (rule faceIndices_loop1_range)
    show "faceIndices_loop1 (real n / 3) (seededRandom_sphere1 77) [] = Some fis"
      using assms(3) by (simp add: faceIndices1_def)
    show "valid_state (seededRandom_sphere1 77)"
      by (simp add: valid_state_def seededRandom_sphere1_def)
    show "0 < real n / 3" using assms(1) by simp
    show "face_range (real n / 3) []" by (simp add: face_range_def)
  qed
  then show ?thesis using face_index_in_bounds [OF assms(2)] by (auto simp: face_range_def)
qed

lemma faceIndices2_bounds:
  assumes "0 < n" "3 dvd n" "faceIndices2 n = Some fis"
  shows "\<forall>fi \<in> set fis. 0 \<le> fi \<and> fi * 3 + 2 < int n"
proof -
  have "face_range (real n / 3) fis"
  proof (rule faceIndices_loop2_range)
    show "faceIndices_loop2 (real n / 3) (seededRandom_sphere2 123) [] = Some fis"
      using assms(3) by (simp add: faceIndices2_def)
    show "valid_state (seededRandom_sphere2 123)"
      by (simp add: valid_state_def seededRandom_sphere2_def)
    show "0 < real n / 3" using assms(1) by simp
    show "face_range (real n / 3) []" by (simp add: face_range_def)
  qed
  then show ?thesis using face_index_in_bounds [OF assms(2)] by (auto simp: face_range_def)
qed

lemma panel_of_face_ok:
  assumes "0 \<le> fi" "fi * 3 + 2 < int (length pos)"
  shows "\<exists>p. panel_of_face pos fi = Inr p"
  using assms by (simp add: panel_of_face_def Let_def ebind_def fromBufferAttribute_def)

lemma emap_ok:
  assumes "\<forall>a \<in> set as. \<exists>b. f a = Inr b"
  shows "\<exists>bs. emap f as = Inr bs \<and> length bs = length as"
  using assms by (induction as) (auto simp: ebind_def)

lemma panels_ok:
  assumes "\<forall>fi \<in> set fis. 0 \<le> fi \<and> fi * 3 + 2 < int (length pos)"
  shows "\<exists>ps. emap (panel_of_face pos) fis = Inr ps \<and> length ps = length fis"
  using assms by (intro emap_ok) (simp add: panel_of_face_ok)

lemma beam_body1_step:
  assumes "valid_state s" "0 < length pos"
  shows "case beam_body1 pos i (Inr (objects, s)) of
           Inl e \<Rightarrow> False
         | Inr (objects', s') \<Rightarrow> valid_state s' \<and> length objects' = length objects + 1"
proof -
  from assms(1) obtain r1 s1 where 1: "rand s = (r1, s1)" "0 \<le> r1" "r1 < 1" "valid_state s1"
    by (rule rand_validE)
  from 1(4) obtain r2 s2 where 2: "rand s1 = (r2, s2)" "valid_state s2"
    by (rule rand_validE)
  from 2(2) obtain r3 s3 where 3: "rand s2 = (r3, s3)" "valid_state s3"
    by (rule rand_validE)
  from 3(2) obtain r4 s4 where 4: "rand s3 = (r4, s4)" "valid_state s4"
    by (rule rand_validE)
  from assms(2) have "0 < real (length pos)" by simp
  from floor_scaled_range [OF 1(2,3) this]
  have idx: "0 \<le> \<lfloor>r1 * real (length pos)\<rfloor>" "\<lfloor>r1 * real (length pos)\<rfloor> < int (length pos)"
    by linarith+
  show ?thesis
    using idx 1 2 3 4
    by (simp add: beam_body1_def rand_sphere1_eq ebind_def fromBufferAttribute_def Let_def)
qed


lemma beam_body2_step:
  assumes "valid_state s" "0 < length pos"
  shows "case beam_body2 pos i (Inr (objects, s)) of
           Inl e \<Rightarrow> False
         | Inr (objects', s') \<Rightarrow> valid_state s' \<and> length objects' = length objects + 1"
proof -
  from assms(1) obtain r1 s1 where 1: "rand s = (r1, s1)" "0 \<le> r1" "r1 < 1" "valid_state s1"
    by (rule rand_validE)
  from 1(4) obtain r2 s2 where 2: "rand s1 = (r2, s2)" "valid_state s2"
    by (rule rand_validE)
  from 2(2) obtain r3 s3 where 3: "rand s2 = (r3, s3)" "valid_state s3"
    by (rule rand_validE)
  from 3(2) obtain r4 s4 where 4: "rand s3 = (r4, s4)" "valid_state s4"
    by (rule rand_validE)
  from assms(2) have "0 < real (length pos)" by simp
  from floor_scaled_range [OF 1(2,3) this]
  have idx: "0 \<le> \<lfloor>r1 * real (length pos)\<rfloor>" "\<lfloor>r1 * real (length pos)\<rfloor> < int (length pos)"
    by linarith+
  show ?thesis
    using idx 1 2 3 4
    by (simp add: beam_body2_def rand_sphere2_eq ebind_def fromBufferAttribute_def Let_def)
qed


lemma beamObjects1_ok:
  assumes "0 < length pos"
  shows "\<exists>bs. beamObjects1 pos = Inr bs \<and> length bs = 10"
proof -
  have "beam_inv 10 (for_loop 10 (beam_body1 pos) (Inr ([], seededRandom_sphere1 200)))"
  proof (rule for_loop_invariant)
    show "beam_inv 0 (Inr ([], seededRandom_sphere1 200))"
      by (simp add: beam_inv_def valid_state_def seededRandom_sphere1_def)
  next
    fix i st
    assume "beam_inv i st"
    then obtain objects s where st: "st = Inr (objects, s)" and v: "valid_state s"
      and len: "length objects = i"
      by (auto simp: beam_inv_def split: sum.splits)
    from beam_body1_step [OF v assms, where i = i and objects = objects] len
    show "beam_inv (Suc i) (beam_body1 pos i st)"
      by (auto simp: st beam_inv_def split: sum.splits)
  qed
  then show ?thesis
    by (auto simp: beamObjects1_def beam_inv_def ebind_def split: sum.splits)
qed

lemma beamObjects2_ok:
  assumes "0 < length pos"
  shows "\<exists>bs. beamObjects2 pos = Inr bs \<and> length bs = 15"
proof -
  have "beam_inv 15 (for_loop 15 (beam_body2 pos) (Inr ([], seededRandom_sphere2 200)))"
  proof (rule for_loop_invariant)
    show "beam_inv 0 (Inr ([], seededRandom_sphere2 200))"
      by (simp add: beam_inv_def valid_state_def seededRandom_sphere2_def)
  next
    fix i st
    assume "beam_inv i st"
    then obtain objects s where st: "st = Inr (objects, s)" and v: "valid_state s"
      and len: "length objects = i"
      by (auto simp: beam_inv_def split: sum.splits)
    from beam_body2_step [OF v assms, where i = i and objects = objects] len
    show "beam_inv (Suc i) (beam_body2 pos i st)"
      by (auto simp: st beam_inv_def split: sum.splits)
  qed
  then show ?thesis
    by (auto simp: beamObjects2_def beam_inv_def ebind_def split: sum.splits)
qed

lemma beam_index_in_bounds:
  assumes "valid_state s" "0 < n"
  shows "0 \<le> \<lfloor>fst (rand s) * real n\<rfloor>" "\<lfloor>fst (rand s) * real n\<rfloor> < int n"
proof -
  from assms(2) have "0 < real n" by simp
  from floor_scaled_range [OF rand_valid(2,3) [OF assms(1)] this]
  show "0 \<le> \<lfloor>fst (rand s) * real n\<rfloor>" "\<lfloor>fst (rand s) * real n\<rfloor> < int n"
    by linarith+
qed

text \<open>
  Claim C2. The panel-selection loops end: on the icosahedron's 80 faces (240 vertices),
  the loop of the first sphere scene (seed 77, three distinct faces) returns, with the
  faces 0, 10, 14, and the loop of the second sphere scene (seed 123, four distinct
  faces) returns, with the faces 0, 14, 75, 33.
\<close>

theorem panel_loops_terminate:
  "faceIndices1 240 = Some [0, 10, 14] \<and> faceIndices2 240 = Some [0, 14, 75, 33]"
  by (simp add: faceIndices1_240 faceIndices2_240)

text \<open>
  Claim C4. For a position attribute whose vertex count is a positive multiple of 3
  (the icosahedron has 240), every index the construction uses is in range: each chosen
  face index \<open>fi\<close> satisfies \<open>0 \<le> fi\<close> and \<open>fi * 3 + 2 < count\<close>, and the panels are
  read without error; each beam vertex index \<open>floor (rand() * count)\<close> lies in
  \<open>[0, count)\<close>, and the 10 (respectively 15) beams are built without error; and every
  \<open>setMatrixAt\<close> of the greebles hits one of the 200 instances.
\<close>

theorem buffer_indices_in_bounds:
  assumes "0 < length pos" "3 dvd length pos"
  shows "(\<forall>fis. faceIndices1 (length pos) = Some fis \<longrightarrow>
            (\<forall>fi \<in> set fis. 0 \<le> fi \<and> fi * 3 + 2 < int (length pos))
            \<and> (\<exists>ps. panelGeos1 pos = Some (Inr ps) \<and> length ps = length fis))
       \<and> (\<forall>fis. faceIndices2 (length pos) = Some fis \<longrightarrow>
            (\<forall>fi \<in> set fis. 0 \<le> fi \<and> fi * 3 + 2 < int (length pos))
            \<and> (\<exists>ps. panelGeos2 pos = Some (Inr ps) \<and> length ps = length fis))
       \<and> (\<forall>s. valid_state s \<longrightarrow>
            0 \<le> \<lfloor>fst (rand_sphere1 s) * real (length pos)\<rfloor>
            \<and> \<lfloor>fst (rand_sphere1 s) * real (length pos)\<rfloor> < int (length pos)
            \<and> 0 \<le> \<lfloor>fst (rand_sphere2 s) * real (length pos)\<rfloor>
            \<and> \<lfloor>fst (rand_sphere2 s) * real (length pos)\<rfloor> < int (length pos))
       \<and> (\<exists>bs. beamObjects1 pos = Inr bs \<and> length bs = 10)
       \<and> (\<exists>bs. beamObjects2 pos = Inr bs \<and> length bs = 15)
       \<and> (\<exists>mesh. MicroGreebles_layoutEffect (Some (new_InstancedMesh 200)) = Inr (Some mesh))"
proof -
  have p1: "(\<forall>fi \<in> set fis. 0 \<le> fi \<and> fi * 3 + 2 < int (length pos))
            \<and> (\<exists>ps. panelGeos1 pos = Some (Inr ps) \<and> length ps = length fis)"
    if "faceIndices1 (length pos) = Some fis" for fis
    using faceIndices1_bounds [OF assms that] panels_ok [of fis pos] that
    by (auto simp: panelGeos1_def)
  have p2: "(\<forall>fi \<in> set fis. 0 \<le> fi \<and> fi * 3 + 2 < int (length pos))
            \<and> (\<exists>ps. panelGeos2 pos = Some (Inr ps) \<and> length ps = length fis)"
    if "faceIndices2 (length pos) = Some fis" for fis
    using faceIndices2_bounds [OF assms that] panels_ok [of fis pos] that
    by (auto simp: panelGeos2_def)
  have b: "0 \<le> \<lfloor>fst (rand_sphere1 s) * real (length pos)\<rfloor>
            \<and> \<lfloor>fst (rand_sphere1 s) * real (length pos)\<rfloor> < int (length pos)
            \<and> 0 \<le> \<lfloor>fst (rand_sphere2 s) * real (length pos)\<rfloor>
            \<and> \<lfloor>fst (rand_sphere2 s) * real (length pos)\<rfloor> < int (length pos)"
    if "valid_state s" for s
    using beam_index_in_bounds [OF that assms(1)] by (simp add: rand_sphere1_eq rand_sphere2_eq)
  from MicroGreebles_placed
  have g: "\<exists>mesh. MicroGreebles_layoutEffect (Some (new_InstancedMesh 200)) = Inr (Some mesh)"
    by blast
  from p1 p2 b beamObjects1_ok [OF assms(1)] beamObjects2_ok [OF assms(1)] g
  show ?thesis by blast
qed

theorem buffer_indices_in_bounds_witness:
  "faceIndices1 (length (replicate 240 (Vector3 0 0 2))) = Some [0, 10, 14]
   \<and> (14::int) * 3 + 2 < int (length (replicate 240 (Vector3 0 0 2)))
   \<and> (\<exists>ps. panelGeos1 (replicate 240 (Vector3 0 0 2)) = Some (Inr ps) \<and> length ps = 3)
   \<and> (\<exists>ps. panelGeos2 (replicate 240 (Vector3 0 0 2)) = Some (Inr ps) \<and> length ps = 4)
   \<and> \<lfloor>fst (rand_sphere1 200) * real (length (replicate 240 (Vector3 0 0 2)))\<rfloor> = 0
   \<and> (\<exists>bs. beamObjects1 (replicate 240 (Vector3 0 0 2)) = Inr bs \<and> length bs = 10)
   \<and> (\<exists>bs. beamObjects2 (replicate 240 (Vector3 0 0 2)) = Inr bs \<and> length bs = 15)"
proof -
  let ?pos = "replicate 240 (Vector3 0 0 2)"
  have h: "0 < length ?pos" "3 dvd length ?pos" by simp_all
  have f1: "faceIndices1 (length ?pos) = Some [0, 10, 14]" by (simp add: faceIndices1_240)
  have f2: "faceIndices2 (length ?pos) = Some [0, 14, 75, 33]" by (simp add: faceIndices2_240)
  have i: "\<lfloor>fst (rand_sphere1 200) * real (length ?pos)\<rfloor> = 0"
    by (simp add: rand_sphere1_def js_rem_def Let_def)
  note t = buffer_indices_in_bounds [OF h]
  from t f1 have "\<exists>ps. panelGeos1 ?pos = Some (Inr ps) \<and> length ps = 3" by fastforce
  moreover from t f2 have "\<exists>ps. panelGeos2 ?pos = Some (Inr ps) \<and> length ps = 4" by fastforce
  moreover from t have "\<exists>bs. beamObjects1 ?pos = Inr bs \<and> length bs = 10"
    "\<exists>bs. beamObjects2 ?pos = Inr bs \<and> length bs = 15" by blast+
  ultimately show ?thesis using f1 i by simp
qed

section \<open>Frame callbacks\<close>

lemma fold_snoc: "fold f (ts @ [t]) st = f t (fold f ts st)"
  by simp

lemma fold_absorb:
  assumes "\<And>a b st. f a (f b st) = f a st"
  shows "f t (fold f ts st) = f t st"
proof (induction ts arbitrary: st)
  case Nil
  show ?case by simp
next
  case (Cons a ts)
  have "f t (fold f (a # ts) st) = f t (fold f ts (f a st))" by simp
  also have "\<dots> = f t (f a st)" by (rule Cons.IH)
  also have "\<dots> = f t st" by (rule assms)
  finally show ?case .
qed

lemma NeuralChip_useFrame_absorb:
  "NeuralChip_useFrame t (NeuralChip_useFrame t' c) = NeuralChip_useFrame t c"
  by (cases "groupRef c"; cases "coreLightRef c") (simp_all add: NeuralChip_useFrame_def Let_def)

lemma ParticleField_useFrame_absorb:
  "ParticleField_useFrame t (ParticleField_useFrame t' p) = ParticleField_useFrame t p"
  by (cases "pointsRef p") (simp_all add: ParticleField_useFrame_def)

lemma SceneLights_useFrame_absorb:
  "SceneLights_useFrame t (SceneLights_useFrame t' sl) = SceneLights_useFrame t sl"
  by (cases "movLight sl") (simp_all add: SceneLights_useFrame_def Let_def)

lemma chip_frame_absorb: "chip_frame t (chip_frame t' sc) = chip_frame t sc"
  by (simp add: chip_frame_def NeuralChip_useFrame_absorb ParticleField_useFrame_absorb
      SceneLights_useFrame_absorb)

lemma beams_forEach1_absorb:
  "beams_forEach1 t i (beams_forEach1 t' i bs) = beams_forEach1 t i bs"
  by (induction bs arbitrary: i) simp_all

lemma AICoreSphere_useFrame1_absorb:
  "AICoreSphere_useFrame1 t (AICoreSphere_useFrame1 t' c) = AICoreSphere_useFrame1 t c"
  by (cases "groupRef1 c"; cases "panelLightRef1 c"; cases "innerGlowRef1 c")
    (simp_all add: AICoreSphere_useFrame1_def Let_def beams_forEach1_absorb)

lemma SceneLights_useFrame1_absorb:
  "SceneLights_useFrame1 t (SceneLights_useFrame1 t' sl) = SceneLights_useFrame1 t sl"
  by (cases "rimRef1 sl"; cases "keyRef1 sl") (simp_all add: SceneLights_useFrame1_def Let_def)

lemma CameraDrift_useFrame1_absorb:
  "CameraDrift_useFrame1 t (CameraDrift_useFrame1 t' cam) = CameraDrift_useFrame1 t cam"
  by (simp add: CameraDrift_useFrame1_def lookAt_def Let_def)

lemma ParticleField_useFrame1_absorb:
  "ParticleField_useFrame1 t (ParticleField_useFrame1 t' p) = ParticleField_useFrame1 t p"
  by (cases "pointsRef p") (simp_all add: ParticleField_useFrame1_def Let_def)

lemma sphere1_frame_absorb: "sphere1_frame t (sphere1_frame t' sc) = sphere1_frame t sc"
  by (simp add: sphere1_frame_def AICoreSphere_useFrame1_absorb SceneLights_useFrame1_absorb
      CameraDrift_useFrame1_absorb ParticleField_useFrame1_absorb)

text \<open>
  Claim C6. In the first sphere scene (\<open>AICoreSphere\<close>, \<open>SceneLights\<close>, \<open>CameraDrift\<close>,
  \<open>ParticleField\<close>) and in the chip scene, every frame callback assigns what it animates
  as a function of the elapsed time alone: running the callbacks at the times
  \<open>t1, \<dots>, tn, t\<close>, from any state, leaves the state that running them once at \<open>t\<close>
  leaves.
\<close>

theorem frame_history_independent:
  "fold sphere1_frame (ts @ [t]) sc1 = sphere1_frame t sc1
   \<and> fold AICoreSphere_useFrame1 (ts @ [t]) c = AICoreSphere_useFrame1 t c
   \<and> fold SceneLights_useFrame1 (ts @ [t]) sl = SceneLights_useFrame1 t sl
   \<and> fold CameraDrift_useFrame1 (ts @ [t]) cam = CameraDrift_useFrame1 t cam
   \<and> fold ParticleField_useFrame1 (ts @ [t]) p = ParticleField_useFrame1 t p
   \<and> fold chip_frame (ts @ [t]) sc = chip_frame t sc
   \<and> fold NeuralChip_useFrame (ts @ [t]) nc = NeuralChip_useFrame t nc
   \<and> fold ParticleField_useFrame (ts @ [t]) p = ParticleField_useFrame t p
   \<and> fold SceneLights_useFrame (ts @ [t]) ml = SceneLights_useFrame t ml"
  by (simp only: fold_snoc fold_absorb [of sphere1_frame, OF sphere1_frame_absorb]
      fold_absorb [of AICoreSphere_useFrame1, OF AICoreSphere_useFrame1_absorb]
      fold_absorb [of SceneLights_useFrame1, OF SceneLights_useFrame1_absorb]
      fold_absorb [of CameraDrift_useFrame1, OF CameraDrift_useFrame1_absorb]
      fold_absorb [of ParticleField_useFrame1, OF ParticleField_useFrame1_absorb]
      fold_absorb [of chip_frame, OF chip_frame_absorb]
      fold_absorb [of NeuralChip_useFrame, OF NeuralChip_useFrame_absorb]
      fold_absorb [of ParticleField_useFrame, OF ParticleField_useFrame_absorb]
      fold_absorb [of SceneLights_useFrame, OF SceneLights_useFrame_absorb] simp_thms)

lemma sin_affine_range:
  fixes a b x :: real
  assumes "0 \<le> b"
  shows "a - b \<le> a + sin x * b" "a + sin x * b \<le> a + b"
proof -
  have "- 1 * b \<le> sin x * b" using assms by (intro mult_right_mono) simp_all
  then show "a - b \<le> a + sin x * b" by simp
  have "sin x * b \<le> 1 * b" using assms by (intro mult_right_mono) simp_all
  then show "a + sin x * b \<le> a + b" by simp
qed

text \<open>
  Claim C7. At every elapsed time \<open>t\<close>, after any earlier frames, the chip's callback
  leaves the core light at intensity \<open>8 + 2 sin (1.5 t)\<close>, which lies in \<open>[6, 10]\<close>, and
  the group's rotation at \<open>x = sin (0.05 t) * 0.08\<close>, \<open>y = sin (0.03 t) * 0.12\<close>; the
  \<open>SceneLights\<close> callback of the first sphere scene leaves the rim light at
  \<open>1.8 + 0.4 sin (0.6 t)\<close>, in \<open>[1.4, 2.2]\<close>, and the key light at
  \<open>3.5 + 0.3 sin (0.4 t)\<close>, in \<open>[3.2, 3.8]\<close>.
\<close>

theorem frame_closed_forms:
  "(\<exists>l. coreLightRef (fold NeuralChip_useFrame (ts @ [t]) NeuralChip_mounted) = Some l
        \<and> intensity l = 8.0 + 2.0 * sin (1.5 * t) \<and> 6 \<le> intensity l \<and> intensity l \<le> 10)
   \<and> (\<exists>g. groupRef (fold NeuralChip_useFrame (ts @ [t]) NeuralChip_mounted) = Some g
        \<and> vx (rotation g) = sin (0.05 * t) * 0.08 \<and> vy (rotation g) = sin (0.03 * t) * 0.12)
   \<and> (\<exists>l. rimRef1 (fold SceneLights_useFrame1 (ts @ [t]) SceneLights_mounted1) = Some l
        \<and> intensity l = 1.8 + 0.4 * sin (0.6 * t) \<and> 1.4 \<le> intensity l \<and> intensity l \<le> 2.2)
   \<and> (\<exists>l. keyRef1 (fold SceneLights_useFrame1 (ts @ [t]) SceneLights_mounted1) = Some l
        \<and> intensity l = 3.5 + 0.3 * sin (0.4 * t) \<and> 3.2 \<le> intensity l \<and> intensity l \<le> 3.8)"
proof -
  have c: "fold NeuralChip_useFrame (ts @ [t]) NeuralChip_mounted
         = NeuralChip_useFrame t NeuralChip_mounted"
    by (simp only: fold_snoc fold_absorb [of NeuralChip_useFrame, OF NeuralChip_useFrame_absorb])
  have s: "fold SceneLights_useFrame1 (ts @ [t]) SceneLights_mounted1
         = SceneLights_useFrame1 t SceneLights_mounted1"
    by (simp only: fold_snoc fold_absorb [of SceneLights_useFrame1, OF SceneLights_useFrame1_absorb])
  have r1: "6 \<le> 8 + sin (t * 1.5) * (2::real)" "8 + sin (t * 1.5) * (2::real) \<le> 10"
    using sin_affine_range [of 2 8 "t * 1.5"] by simp_all
  have r2: "1.4 \<le> 1.8 + sin (t * 0.6) * (0.4::real)" "1.8 + sin (t * 0.6) * (0.4::real) \<le> 2.2"
    using sin_affine_range [of "0.4" "1.8" "t * 0.6"] by simp_all
  have r3: "3.2 \<le> 3.5 + sin (t * 0.4) * (0.3::real)" "3.5 + sin (t * 0.4) * (0.3::real) \<le> 3.8"
    using sin_affine_range [of "0.3" "3.5" "t * 0.4"] by simp_all
  show ?thesis
    unfolding c s using r1 r2 r3
    by (simp add: NeuralChip_useFrame_def NeuralChip_mounted_def SceneLights_useFrame1_def
        SceneLights_mounted1_def Let_def mult.commute)
qed

section \<open>Colours and opacities\<close>

lemma unit_range_update:
  assumes "unit_range cs" "0 \<le> v" "v \<le> 1"
  shows "unit_range (cs[i := v])"
  using assms set_update_subset_insert [of cs i v] by (auto simp: unit_range_def)

lemma edgeColors_body1_inv:
  assumes "color_inv i st"
  shows "color_inv (Suc i) (edgeColors_body1 i st)"
proof -
  obtain colors s where st: "st = (colors, s)" by (cases st)
  from assms have u: "unit_range colors" and v: "valid_state s" by (simp_all add: color_inv_def st)
  from v obtain b s' where r: "rand s = (b, s')" "0 \<le> b" "b < 1" "valid_state s'"
    by (rule rand_validE)
  show ?thesis
    using r(2,3,4)
    by (simp add: st edgeColors_body1_def rand_sphere1_eq r(1) color_inv_def
        unit_range_update [OF unit_range_update [OF unit_range_update [OF u]]])
qed

lemma edgeColors_body2_inv:
  assumes "color_inv i st"
  shows "color_inv (Suc i) (edgeColors_body2 i st)"
proof -
  obtain colors s where st: "st = (colors, s)" by (cases st)
  from assms have u: "unit_range colors" and v: "valid_state s" by (simp_all add: color_inv_def st)
  from v obtain b s' where r: "rand s = (b, s')" "0 \<le> b" "b < 1" "valid_state s'"
    by (rule rand_validE)
  show ?thesis
    using r(2,3,4)
    by (simp add: st edgeColors_body2_def rand_sphere2_eq r(1) color_inv_def
        unit_range_update [OF unit_range_update [OF unit_range_update [OF u]]])
qed

lemma edgeColors1_range: "unit_range (edgeColors1 n)"
proof -
  have "color_inv n (for_loop n edgeColors_body1 (replicate (n * 3) 0, seededRandom_sphere1 42))"
  proof (rule for_loop_invariant)
    show "color_inv 0 (replicate (n * 3) 0, seededRandom_sphere1 42)"
      by (simp add: color_inv_def unit_range_def valid_state_def seededRandom_sphere1_def)
  qed (rule edgeColors_body1_inv)
  then show ?thesis by (simp add: edgeColors1_def color_inv_def)
qed

lemma edgeColors2_range: "unit_range (edgeColors2 n)"
proof -
  have "color_inv n (for_loop n edgeColors_body2 (replicate (n * 3) 0, seededRandom_sphere2 42))"
  proof (rule for_loop_invariant)
    show "color_inv 0 (replicate (n * 3) 0, seededRandom_sphere2 42)"
      by (simp add: color_inv_def unit_range_def valid_state_def seededRandom_sphere2_def)
  qed (rule edgeColors_body2_inv)
  then show ?thesis by (simp add: edgeColors2_def color_inv_def)
qed

lemma beams_forEach1_range: "opacity_range (beams_forEach1 t i bs)"
proof (induction bs arbitrary: i)
  case Nil
  show ?case by (simp add: opacity_range_def)
next
  case (Cons b bs)
  have "0 \<le> 0.2 + sin (t * 1.8 + real i * 1.1) * (0.2::real)"
    "0.2 + sin (t * 1.8 + real i * 1.1) * (0.2::real) \<le> 1"
    using sin_affine_range [of "0.2" "0.2" "t * 1.8 + real i * 1.1"] by linarith+
  with Cons [of "i + 1"] show ?case by (simp add: opacity_range_def)
qed

lemma beams_forEach1_length: "length (beams_forEach1 t i bs) = length bs"
  by (induction bs arbitrary: i) simp_all

lemma unit_interval_next: "unit_interval src \<Longrightarrow> unit_interval (snd (Math_random src))"
  by (simp add: unit_interval_def Math_random_def)

lemma beams_forEach2_range:
  "unit_interval src \<Longrightarrow> opacity_range (fst (beams_forEach2 t i bs src))"
proof (induction bs arbitrary: i src)
  case Nil
  show ?case by (simp add: opacity_range_def)
next
  case (Cons b bs)
  from Cons.prems have r: "0 \<le> src 0" "src 0 < 1" by (simp_all add: unit_interval_def)
  have s: "0 \<le> 0.1 + sin (t * 2.0 + real i * 10.0) * (0.1::real)"
    "0.1 + sin (t * 2.0 + real i * 10.0) * (0.1::real) \<le> 0.2"
    using sin_affine_range [of "0.1" "0.1" "t * 2.0 + real i * 10.0"] by simp_all
  from r s have o: "0 \<le> 0.1 + sin (t * 2.0 + real i * 10.0) * 0.1 + src 0 * 0.05"
    "0.1 + sin (t * 2.0 + real i * 10.0) * 0.1 + src 0 * 0.05 \<le> 1"
    by simp_all
  from Cons.IH [OF unit_interval_next [OF Cons.prems], of "i + 1"] o
  show ?case
    by (simp add: opacity_range_def Math_random_def Let_def split: prod.splits)
qed

lemma beams_forEach2_length: "length (fst (beams_forEach2 t i bs src)) = length bs"
  by (induction bs arbitrary: i src) (simp_all add: Let_def case_prod_beta)

lemma AICoreSphere_useFrame1_beams:
  "beams1 (AICoreSphere_useFrame1 t c) = beams_forEach1 t 0 (beams1 c)"
  by (cases "groupRef1 c"; cases "panelLightRef1 c"; cases "innerGlowRef1 c")
    (simp_all add: AICoreSphere_useFrame1_def Let_def)

lemma AICoreSphere_useFrame1_glow:
  "innerGlowRef1 (AICoreSphere_useFrame1 t c)
     = map_option (\<lambda>m. m\<lparr>opacity := 0.06 + sin (t * 0.8) * 0.02\<rparr>) (innerGlowRef1 c)"
  by (cases "groupRef1 c"; cases "panelLightRef1 c"; cases "innerGlowRef1 c")
    (simp_all add: AICoreSphere_useFrame1_def Let_def)

lemma AICoreSphere_useFrame2_glow:
  "innerGlowRef2 (fst (AICoreSphere_useFrame2 t (c, src)))
     = map_option (\<lambda>m. m\<lparr>opacity := 0.05 + sin (t * 0.5) * 0.03\<rparr>) (innerGlowRef2 c)"
  by (cases "groupRef2 c"; cases "orbitRingRef2 c"; cases "panelLightRef2 c"; cases "innerGlowRef2 c")
    (simp_all add: AICoreSphere_useFrame2_def Let_def split: prod.splits)

lemma AICoreSphere_useFrame2_beams:
  "beams2 (fst (AICoreSphere_useFrame2 t (c, src)))
     = fst (beams_forEach2 t 0 (beams2 c)
         (case panelLightRef2 c of None \<Rightarrow> src | Some l \<Rightarrow> snd (Math_random src)))"
  by (cases "groupRef2 c"; cases "orbitRingRef2 c"; cases "panelLightRef2 c"; cases "innerGlowRef2 c")
    (simp_all add: AICoreSphere_useFrame2_def Let_def split: prod.splits)


lemma sin_affine_bounds:
  fixes a b lo hi x :: real
  assumes "0 \<le> b" "lo \<le> a - b" "a + b \<le> hi"
  shows "lo \<le> a + sin x * b \<and> a + sin x * b \<le> hi"
  using sin_affine_range [OF assms(1), of a x] assms(2,3) by linarith

text \<open>
  Claim C3. Every vertex-colour component of the edge geometries lies in \<open>[0, 1]\<close>, and
  so does every opacity a frame callback writes, at every elapsed time \<open>t\<close> and from any
  state: in the first sphere scene the inner glow's \<open>0.06 + sin (0.8 t) * 0.02\<close> and the
  beams' opacities; in the second the inner glow's \<open>0.05 + sin (0.5 t) * 0.03\<close> and the
  beams' \<open>0.1 + sin (2 t + 10 i) * 0.1 + r * 0.05\<close>, for values \<open>r\<close> of
  \<^verbatim>\<open>Math.random()\<close> in \<open>[0, 1)\<close>.
\<close>

theorem color_opacity_ranges:
  assumes "unit_interval src"
  shows "(\<forall>c \<in> set (edgeColors1 n). 0 \<le> c \<and> c \<le> 1)
   \<and> (\<forall>c \<in> set (edgeColors2 n). 0 \<le> c \<and> c \<le> 1)
   \<and> (\<forall>m \<in> set_option (innerGlowRef1 (AICoreSphere_useFrame1 t c1)).
         opacity m = 0.06 + sin (t * 0.8) * 0.02 \<and> 0 \<le> opacity m \<and> opacity m \<le> 1)
   \<and> length (beams1 (AICoreSphere_useFrame1 t c1)) = length (beams1 c1)
   \<and> (\<forall>l \<in> set (beams1 (AICoreSphere_useFrame1 t c1)). 0 \<le> line_opacity l \<and> line_opacity l \<le> 1)
   \<and> (\<forall>m \<in> set_option (innerGlowRef2 (fst (AICoreSphere_useFrame2 t (c2, src)))).
         opacity m = 0.05 + sin (t * 0.5) * 0.03 \<and> 0 \<le> opacity m \<and> opacity m \<le> 1)
   \<and> length (beams2 (fst (AICoreSphere_useFrame2 t (c2, src)))) = length (beams2 c2)
   \<and> (\<forall>l \<in> set (beams2 (fst (AICoreSphere_useFrame2 t (c2, src)))).
         0 \<le> line_opacity l \<and> line_opacity l \<le> 1)"
proof -
  have e1: "\<forall>c \<in> set (edgeColors1 n). 0 \<le> c \<and> c \<le> 1"
    using edgeColors1_range [of n] by (simp add: unit_range_def)
  have e2: "\<forall>c \<in> set (edgeColors2 n). 0 \<le> c \<and> c \<le> 1"
    using edgeColors2_range [of n] by (simp add: unit_range_def)
  have g1: "0 \<le> 0.06 + sin (t * 0.8) * (0.02::real)" "0.06 + sin (t * 0.8) * (0.02::real) \<le> 1"
    using sin_affine_bounds [of "0.02" 0 "0.06" 1 "t * 0.8"] by simp_all
  have g2: "0 \<le> 0.05 + sin (t * 0.5) * (0.03::real)" "0.05 + sin (t * 0.5) * (0.03::real) \<le> 1"
    using sin_affine_bounds [of "0.03" 0 "0.05" 1 "t * 0.5"] by simp_all
  have i1: "\<forall>m \<in> set_option (innerGlowRef1 (AICoreSphere_useFrame1 t c1)).
         opacity m = 0.06 + sin (t * 0.8) * 0.02 \<and> 0 \<le> opacity m \<and> opacity m \<le> 1"
    using g1 by (cases "innerGlowRef1 c1") (simp_all add: AICoreSphere_useFrame1_glow)
  have i2: "\<forall>m \<in> set_option (innerGlowRef2 (fst (AICoreSphere_useFrame2 t (c2, src)))).
         opacity m = 0.05 + sin (t * 0.5) * 0.03 \<and> 0 \<le> opacity m \<and> opacity m \<le> 1"
    using g2 by (cases "innerGlowRef2 c2") (simp_all add: AICoreSphere_useFrame2_glow)
  have b1: "\<forall>l \<in> set (beams1 (AICoreSphere_useFrame1 t c1)). 0 \<le> line_opacity l \<and> line_opacity l \<le> 1"
    using beams_forEach1_range [of t 0 "beams1 c1"]
    by (simp add: AICoreSphere_useFrame1_beams opacity_range_def)
  have src': "unit_interval (case panelLightRef2 c2 of None \<Rightarrow> src | Some l \<Rightarrow> snd (Math_random src))"
    using assms unit_interval_next [OF assms] by (simp split: option.splits)
  have b2: "\<forall>l \<in> set (beams2 (fst (AICoreSphere_useFrame2 t (c2, src)))).
         0 \<le> line_opacity l \<and> line_opacity l \<le> 1"
    using beams_forEach2_range [OF src', of t 0 "beams2 c2"]
    by (simp add: AICoreSphere_useFrame2_beams opacity_range_def)
  have l1: "length (beams1 (AICoreSphere_useFrame1 t c1)) = length (beams1 c1)"
    by (simp add: AICoreSphere_useFrame1_beams beams_forEach1_length)
  have l2: "length (beams2 (fst (AICoreSphere_useFrame2 t (c2, src)))) = length (beams2 c2)"
    by (simp add: AICoreSphere_useFrame2_beams beams_forEach2_length)
  from e1 e2 i1 l1 b1 i2 l2 b2 show ?thesis by blast
qed

lemma edgeColors1_example:
  "edgeColors1 1 = [0.02, 0.25 + 705893 / 2147483646 * 0.2, 0.22 + 705893 / 2147483646 * 0.15]"
  by (simp add: edgeColors1_def for_loop_def edgeColors_body1_def rand_sphere1_def
      seededRandom_sphere1_def js_rem_def Let_def numeral_3_eq_3)

lemma frame_examples:
  "map line_opacity (beams1 (AICoreSphere_useFrame1 0 example_core1)) = [0.2]"
  "map line_opacity (beams2 (fst (AICoreSphere_useFrame2 0 (example_core2, \<lambda>n. 1 / 2)))) = [0.125]"
  "map_option opacity (innerGlowRef2 (fst (AICoreSphere_useFrame2 0 (example_core2, \<lambda>n. 1 / 2)))) = Some 0.05"
  by (simp_all add: AICoreSphere_useFrame1_def AICoreSphere_useFrame2_def example_core1_def
      example_core2_def Math_random_def Let_def)

theorem color_opacity_ranges_witness:
  "unit_interval (\<lambda>n. 1 / 2)
   \<and> edgeColors1 1 = [0.02, 0.25 + 705893 / 2147483646 * 0.2, 0.22 + 705893 / 2147483646 * 0.15]
   \<and> 0 \<le> edgeColors1 1 ! 1 \<and> edgeColors1 1 ! 1 \<le> 1
   \<and> map line_opacity (beams1 (AICoreSphere_useFrame1 0 example_core1)) = [0.2]
   \<and> map line_opacity (beams2 (fst (AICoreSphere_useFrame2 0 (example_core2, \<lambda>n. 1 / 2)))) = [0.125]
   \<and> map_option opacity (innerGlowRef2 (fst (AICoreSphere_useFrame2 0 (example_core2, \<lambda>n. 1 / 2))))
       = Some 0.05
   \<and> 0 \<le> line_opacity (hd (beams2 (fst (AICoreSphere_useFrame2 0 (example_core2, \<lambda>n. 1 / 2)))))
   \<and> line_opacity (hd (beams2 (fst (AICoreSphere_useFrame2 0 (example_core2, \<lambda>n. 1 / 2))))) \<le> 1"
proof -
  have h: "unit_interval (\<lambda>n. 1 / 2)" by (simp add: unit_interval_def)
  note t = color_opacity_ranges [OF h, of 1 0 example_core1 example_core2]
  have m: "edgeColors1 1 ! 1 \<in> set (edgeColors1 1)"
    unfolding edgeColors1_example by simp
  have "beams2 (fst (AICoreSphere_useFrame2 0 (example_core2, \<lambda>n. 1 / 2))) \<noteq> []"
    using frame_examples(2) by auto
  then have b: "hd (beams2 (fst (AICoreSphere_useFrame2 0 (example_core2, \<lambda>n. 1 / 2))))
      \<in> set (beams2 (fst (AICoreSphere_useFrame2 0 (example_core2, \<lambda>n. 1 / 2))))"
    by simp
  from t m b h edgeColors1_example frame_examples show ?thesis by blast
qed

section \<open>Determinism of the placements\<close>

lemma beams_forEach1_points: "map line_points (beams_forEach1 t i bs) = map line_points bs"
  by (induction bs arbitrary: i) simp_all

lemma beams_forEach2_points:
  "map line_points (fst (beams_forEach2 t i bs src)) = map line_points bs"
  by (induction bs arbitrary: i src) (simp_all add: Let_def case_prod_beta)

lemma AICoreSphere_useFrame1_geometry:
  "edgeColorAttr1 (AICoreSphere_useFrame1 t c) = edgeColorAttr1 c"
  "panels1 (AICoreSphere_useFrame1 t c) = panels1 c"
  by (cases "groupRef1 c"; cases "panelLightRef1 c"; cases "innerGlowRef1 c";
      simp add: AICoreSphere_useFrame1_def Let_def)+

lemma AICoreSphere_useFrame2_geometry:
  "edgeColorAttr2 (fst (AICoreSphere_useFrame2 t (c, src))) = edgeColorAttr2 c"
  "panels2 (fst (AICoreSphere_useFrame2 t (c, src))) = panels2 c"
  by (cases "groupRef2 c"; cases "orbitRingRef2 c"; cases "panelLightRef2 c"; cases "innerGlowRef2 c";
      simp add: AICoreSphere_useFrame2_def Let_def split: prod.splits)+

lemma ParticleField_useFrame_positions:
  "positions (ParticleField_useFrame t p) = positions p"
  "positions (ParticleField_useFrame1 t p) = positions p"
  "positions (ParticleField_useFrame2 t p) = positions p"
  by (cases "pointsRef p";
      simp add: ParticleField_useFrame_def ParticleField_useFrame1_def ParticleField_useFrame2_def
        Let_def)+

lemma NeuralChip_useFrame_geometry:
  "denseCircuitGeo (NeuralChip_useFrame t c) = denseCircuitGeo c"
  "activeCircuitGeo (NeuralChip_useFrame t c) = activeCircuitGeo c"
  by (cases "groupRef c"; cases "coreLightRef c"; simp add: NeuralChip_useFrame_def Let_def)+

lemma chip_frame_placements: "chip_placements (chip_frame t sc) = chip_placements sc"
  by (simp add: chip_placements_def chip_frame_def NeuralChip_useFrame_geometry
      ParticleField_useFrame_positions)

lemma sphere1_frame_placements: "sphere1_placements (sphere1_frame t sc) = sphere1_placements sc"
  by (simp add: sphere1_placements_def sphere1_frame_def AICoreSphere_useFrame1_geometry
      AICoreSphere_useFrame1_beams beams_forEach1_points ParticleField_useFrame_positions)

lemma sphere2_frame_placements:
  "sphere2_placements (fst (sphere2_frame t st)) = sphere2_placements (fst st)"
proof -
  obtain sc src where st: "st = (sc, src)" by (cases st)
  obtain c src' where f: "AICoreSphere_useFrame2 t (core2 sc, src) = (c, src')"
    by (cases "AICoreSphere_useFrame2 t (core2 sc, src)")
  from f have c: "c = fst (AICoreSphere_useFrame2 t (core2 sc, src))" by simp
  show ?thesis
    by (simp add: st sphere2_frame_def f sphere2_placements_def ParticleField_useFrame_positions)
      (simp add: c AICoreSphere_useFrame2_geometry AICoreSphere_useFrame2_beams beams_forEach2_points)
qed

lemma fold_preserves:
  assumes "\<And>t st. g (f t st) = g st"
  shows "g (fold f ts st) = g st"
  by (induction ts arbitrary: st) (simp_all add: assms)


lemma chip_run_placements:
  "map_sum id chip_placements (chip_run ts) = map_sum id chip_placements chip_mount"
proof -
  have "map_sum id chip_placements (ebind m (\<lambda>sc. Inr (fold chip_frame ts sc)))
      = map_sum id chip_placements m" for m
    by (cases m)
      (simp_all add: ebind_def
        fold_preserves [of chip_placements chip_frame, OF chip_frame_placements])
  then show ?thesis by (simp add: chip_run_def)
qed

lemma sphere1_run_placements:
  "map_option (map_sum id sphere1_placements) (sphere1_run pos n ts)
     = map_option (map_sum id sphere1_placements) (sphere1_mount pos n)"
proof (cases "sphere1_mount pos n")
  case None
  then show ?thesis by (simp add: sphere1_run_def)
next
  case (Some r)
  then show ?thesis
    by (cases r)
      (simp_all add: sphere1_run_def ebind_def
        fold_preserves [of sphere1_placements sphere1_frame, OF sphere1_frame_placements])
qed

lemma sphere2_run_placements:
  "map_option (map_sum id (\<lambda>st. sphere2_placements (fst st))) (sphere2_run pos n src ts)
     = map_option (map_sum id (\<lambda>st. sphere2_placements (fst st))) (sphere2_mount pos n src)"
proof (cases "sphere2_mount pos n src")
  case None
  then show ?thesis by (simp add: sphere2_run_def)
next
  case (Some r)
  then show ?thesis
    by (cases r)
      (simp_all add: sphere2_run_def ebind_def
        fold_preserves [of "\<lambda>st. sphere2_placements (fst st)" sphere2_frame,
          OF sphere2_frame_placements])
qed

lemma sphere2_mount_placements:
  "map_option (map_sum id (\<lambda>st. sphere2_placements (fst st))) (sphere2_mount pos n src)
     = map_option (map_sum id (\<lambda>st. sphere2_placements (fst st))) (sphere2_mount pos n src')"
proof (cases "panelGeos2 pos")
  case None
  then show ?thesis by (simp add: sphere2_mount_def)
next
  case (Some panels)
  show ?thesis
  proof (cases panels)
    case (Inl e)
    with Some show ?thesis by (simp add: sphere2_mount_def ebind_def)
  next
    case (Inr ps)
    show ?thesis
    proof (cases "beamObjects2 pos")
      case (Inl e)
      with Some \<open>panels = Inr ps\<close> show ?thesis by (simp add: sphere2_mount_def ebind_def)
    next
      case bs: (Inr bs)
      show ?thesis
      proof (cases ps)
        case Nil
        with Some Inr bs show ?thesis by (simp add: sphere2_mount_def ebind_def)
      next
        case (Cons p0 rest)
        with Some Inr bs show ?thesis
          by (simp add: sphere2_mount_def ebind_def sphere2_placements_def Let_def
              case_prod_beta)
      qed
    qed
  qed
qed

lemma chip_mount_ok: "\<exists>sc. chip_mount = Inr sc"
proof -
  from MicroGreebles_placed obtain mesh where
    "MicroGreebles_layoutEffect (Some (new_InstancedMesh 200)) = Inr (Some mesh)" by blast
  then show ?thesis by (simp add: chip_mount_def ebind_def)
qed

lemma chip_run_ok: "\<exists>sc. chip_run ts = Inr sc"
proof -
  from chip_mount_ok obtain sc where m: "chip_mount = Inr sc" by blast
  show ?thesis by (simp add: chip_run_def ebind_def m)
qed

lemma panelGeos1_240:
  assumes "length pos = 240"
  shows "\<exists>p0 p1 p2. panelGeos1 pos = Some (Inr [p0, p1, p2])"
proof -
  have b: "\<forall>fi \<in> set [0, 10, 14 :: int]. 0 \<le> fi \<and> fi * 3 + 2 < int (length pos)"
    using assms by simp
  from panels_ok [OF b] obtain ps where
    ps: "emap (panel_of_face pos) [0, 10, 14] = Inr ps" "length ps = 3" by auto
  from ps(2) obtain p0 p1 p2 where "ps = [p0, p1, p2]"
    by (auto simp: length_Suc_conv numeral_3_eq_3)
  with ps(1) show ?thesis
    by (simp only: panelGeos1_def assms faceIndices1_240 option.map) blast
qed

lemma panelGeos2_240:
  assumes "length pos = 240"
  shows "\<exists>p0 p1 p2 p3. panelGeos2 pos = Some (Inr [p0, p1, p2, p3])"
proof -
  have b: "\<forall>fi \<in> set [0, 14, 75, 33 :: int]. 0 \<le> fi \<and> fi * 3 + 2 < int (length pos)"
    using assms by simp
  from panels_ok [OF b] obtain ps where
    ps: "emap (panel_of_face pos) [0, 14, 75, 33] = Inr ps" "length ps = 4" by auto
  from ps(2) obtain p0 p1 p2 p3 where "ps = [p0, p1, p2, p3]"
    by (auto simp: length_Suc_conv eval_nat_numeral)
  with ps(1) show ?thesis
    by (simp only: panelGeos2_def assms faceIndices2_240 option.map) blast
qed

lemma sphere1_mount_ok:
  assumes "length pos = 240"
  shows "\<exists>sc. sphere1_mount pos n = Some (Inr sc)"
proof -
  from panelGeos1_240 [OF assms] obtain p0 p1 p2 where
    p: "panelGeos1 pos = Some (Inr [p0, p1, p2])" by blast
  from assms have "0 < length pos" by simp
  from beamObjects1_ok [OF this] obtain bs where b: "beamObjects1 pos = Inr bs" by blast
  show ?thesis by (simp add: sphere1_mount_def p b ebind_def)
qed

lemma sphere2_mount_ok:
  assumes "length pos = 240"
  shows "\<exists>st. sphere2_mount pos n src = Some (Inr st)"
proof -
  from panelGeos2_240 [OF assms] obtain p0 p1 p2 p3 where
    p: "panelGeos2 pos = Some (Inr [p0, p1, p2, p3])" by blast
  from assms have "0 < length pos" by simp
  from beamObjects2_ok [OF this] obtain bs where b: "beamObjects2 pos = Inr bs" by blast
  show ?thesis by (simp add: sphere2_mount_def p b ebind_def Let_def case_prod_beta)
qed

lemma sphere1_run_ok:
  assumes "length pos = 240"
  shows "\<exists>sc. sphere1_run pos n ts = Some (Inr sc)"
proof -
  from sphere1_mount_ok [OF assms] obtain sc where "sphere1_mount pos n = Some (Inr sc)" by blast
  then show ?thesis by (simp add: sphere1_run_def ebind_def)
qed

lemma sphere2_run_ok:
  assumes "length pos = 240"
  shows "\<exists>st. sphere2_run pos n src ts = Some (Inr st)"
proof -
  from sphere2_mount_ok [OF assms] obtain st where "sphere2_mount pos n src = Some (Inr st)"
    by blast
  then show ?thesis by (simp add: sphere2_run_def ebind_def)
qed

text \<open>
  Claim C1. Two executions of a scene, whatever their frame times and whatever
  \<^verbatim>\<open>Math.random()\<close> returns in each, build the same placements from the same three.js
  geometry: the greeble matrices, circuit points, network lines and particle positions
  of the chip scene; the edge colours, panels, beam end points and particle positions of
  the sphere scenes. The chip scene always mounts, and so do the sphere scenes on an
  icosahedron of 240 vertices.
\<close>

theorem placements_deterministic:
  "map_sum id chip_placements (chip_run ts1) = map_sum id chip_placements (chip_run ts2)
   \<and> (\<exists>sc. chip_run ts1 = Inr sc)
   \<and> map_option (map_sum id sphere1_placements) (sphere1_run pos n ts1)
     = map_option (map_sum id sphere1_placements) (sphere1_run pos n ts2)
   \<and> map_option (map_sum id (\<lambda>st. sphere2_placements (fst st))) (sphere2_run pos n src1 ts1)
     = map_option (map_sum id (\<lambda>st. sphere2_placements (fst st))) (sphere2_run pos n src2 ts2)
   \<and> (length pos = 240 \<longrightarrow>
        (\<exists>sc. sphere1_run pos n ts1 = Some (Inr sc))
        \<and> (\<exists>st. sphere2_run pos n src1 ts1 = Some (Inr st)))"
  using chip_run_ok [of ts1] sphere1_run_ok [of pos n ts1] sphere2_run_ok [of pos n src1 ts1]
  by (simp only: chip_run_placements sphere1_run_placements sphere2_run_placements
      sphere2_mount_placements [of pos n src1 src2] simp_thms) blast

theorem placements_deterministic_witness:
  "(\<exists>sc. sphere1_run (replicate 240 (Vector3 0 0 2)) 2 [0] = Some (Inr sc))
   \<and> (\<exists>st. sphere2_run (replicate 240 (Vector3 0 0 2)) 2 (\<lambda>k. 0) [0] = Some (Inr st))
   \<and> map_option (map_sum id sphere1_placements) (sphere1_run (replicate 240 (Vector3 0 0 2)) 2 [0])
     = map_option (map_sum id sphere1_placements)
         (sphere1_run (replicate 240 (Vector3 0 0 2)) 2 [1, 2])
   \<and> map_option (map_sum id (\<lambda>st. sphere2_placements (fst st)))
         (sphere2_run (replicate 240 (Vector3 0 0 2)) 2 (\<lambda>k. 0) [0])
     = map_option (map_sum id (\<lambda>st. sphere2_placements (fst st)))
         (sphere2_run (replicate 240 (Vector3 0 0 2)) 2 (\<lambda>k. 1 / 2) [1, 2])"
proof -
  have h: "length (replicate 240 (Vector3 0 0 2)) = 240" by simp
  from placements_deterministic
    [of "[0]" "[1, 2]" "replicate 240 (Vector3 0 0 2)" 2 "\<lambda>k. 0" "\<lambda>k. 1 / 2"] h
  show ?thesis by blast
qed

end
